theory Spec2Isabelle
  imports Complex_Main
begin

section \<open>JavaScript values, strings and objects\<close>

text \<open>
  The repository is a Node.js data-access layer: \<^verbatim>\<open>helpers/sql.js\<close> builds the SET clause of
  an UPDATE statement, \<^verbatim>\<open>models/company.js\<close> and \<^verbatim>\<open>models/job.js\<close> build and send
  parameterised SQL statements.

  A number \<open>JNum n\<close> is an integer that JavaScript holds exactly (of magnitude at most
  \<open>2^53\<close>), as the counts, salaries and ids of the data model are. A character is a code unit.
\<close>

datatype jsval = JUndefined | JNull | JBool bool | JNum int | JStr string

text \<open>The errors of \<^verbatim>\<open>expressError.js\<close> that these modules throw, with their message; an
  error that the storage client raises is \<open>StorageError\<close>.\<close>

datatype error = BadRequestError string | NotFoundError string | StorageError

text \<open>Decimal digits: the numeral that a template literal prints for an integer, and the
  number that a numeral denotes.\<close>

definition digit_char :: "nat \<Rightarrow> char" where
  "digit_char d = ''0123456789'' ! d"

function show_nat :: "nat \<Rightarrow> string" where
  "show_nat n = (if n < 10 then [digit_char n] else show_nat (n div 10) @ [digit_char (n mod 10)])"
  by pat_completeness auto
termination
  by (relation "measure id") auto

declare show_nat.simps [simp del]

definition show_int :: "int \<Rightarrow> string" where
  "show_int n = (if n < 0 then ''-'' @ show_nat (nat (- n)) else show_nat (nat n))"

definition is_digit :: "char \<Rightarrow> bool" where
  "is_digit c = (c \<in> set ''0123456789'')"

definition digit_val :: "char \<Rightarrow> nat" where
  "digit_val c = of_char c - 48"

definition read_nat :: "string \<Rightarrow> nat" where
  "read_nat ds = foldl (\<lambda>a c. 10 * a + digit_val c) 0 ds"

definition read_int :: "string \<Rightarrow> int" where
  "read_int ds = foldl (\<lambda>a c. 10 * a + int (digit_val c)) 0 ds"

text \<open>
  An object with string keys is the list of its own properties in the order in which they
  were created (keys are distinct). \<^verbatim>\<open>Object.keys\<close> and \<^verbatim>\<open>Object.values\<close> do not enumerate
  them in that order: the keys that are array indices (the decimal numeral, without leading
  zero, of an integer below \<open>2^32 - 1\<close>) come first, in ascending numeric order, and the
  other keys follow in creation order.
\<close>

type_synonym 'v obj = "(string \<times> 'v) list"

definition is_array_index :: "string \<Rightarrow> bool" where
  "is_array_index k =
     (k \<noteq> [] \<and> list_all is_digit k \<and> (if k = ''0'' then True else hd k \<noteq> CHR ''0'')
      \<and> read_int k < 4294967295)"

definition own_entries :: "'v obj \<Rightarrow> (string \<times> 'v) list" where
  "own_entries o1 =
     sort_key (\<lambda>p. read_int (fst p)) (filter (\<lambda>p. is_array_index (fst p)) o1)
     @ filter (\<lambda>p. \<not> is_array_index (fst p)) o1"

text \<open>\<^verbatim>\<open>Object.keys(o)\<close> and \<^verbatim>\<open>Object.values(o)\<close>.\<close>

definition keys :: "'v obj \<Rightarrow> string list" where
  "keys o1 = map fst (own_entries o1)"

definition vals :: "'v obj \<Rightarrow> 'v list" where
  "vals o1 = map snd (own_entries o1)"

text \<open>
  Reading one of the filter names (\<open>name\<close>, \<open>minEmployees\<close>, \<open>maxEmployees\<close>, \<open>title\<close>,
  \<open>minSalary\<close>, \<open>hasEquity\<close>) from an object of JavaScript values, as the destructuring of
  \<open>findAll\<close> does: \<^verbatim>\<open>undefined\<close> when the object has no such property. None of these names
  is a property of \<^verbatim>\<open>Object.prototype\<close>, so nothing is inherited for them.
\<close>

definition get_prop :: "jsval obj \<Rightarrow> string \<Rightarrow> jsval" where
  "get_prop o1 k = (case map_of o1 k of None \<Rightarrow> JUndefined | Some v \<Rightarrow> v)"

text \<open>The string that a template literal prints for a value.\<close>

fun to_string :: "jsval \<Rightarrow> string" where
  "to_string JUndefined = ''undefined''"
| "to_string JNull = ''null''"
| "to_string (JBool b) = (if b then ''true'' else ''false'')"
| "to_string (JNum n) = show_int n"
| "to_string (JStr s) = s"

text \<open>\<^verbatim>\<open>Array.prototype.join\<close> on an array of strings.\<close>

fun join :: "string \<Rightarrow> string list \<Rightarrow> string" where
  "join sep [] = []"
| "join sep [x] = x"
| "join sep (x # y # ys) = x @ sep @ join sep (y # ys)"

text \<open>
  The relational operator \<^verbatim>\<open>a > b\<close>. Two strings are compared as strings: by their code
  units, position by position, a proper prefix being the smaller. Otherwise both sides are
  converted to numbers and the comparison is false when either is \<^verbatim>\<open>NaN\<close>.
\<close>

fun str_less :: "string \<Rightarrow> string \<Rightarrow> bool" where
  "str_less [] [] = False"
| "str_less [] (y # ys) = True"
| "str_less (x # xs) [] = False"
| "str_less (x # xs) (y # ys) =
     (if (of_char x :: nat) < of_char y then True
      else if (of_char y :: nat) < of_char x then False
      else str_less xs ys)"

text \<open>
  The conversion of a string to a number: blanks are trimmed; the empty string is 0; a
  radix literal \<^verbatim>\<open>0x\<close>, \<^verbatim>\<open>0o\<close>, \<^verbatim>\<open>0b\<close> has no sign; a decimal literal has an optional sign,
  digits with an optional fraction (or a fraction alone) and an optional exponent, or is
  \<^verbatim>\<open>Infinity\<close>; every other string is \<^verbatim>\<open>NaN\<close>. The value is rounded to the nearest double,
  ties to even, beyond the largest double to infinity.
\<close>

datatype number = NaN | Finite rat | Infinite bool

definition pow2 :: "int \<Rightarrow> rat" where
  "pow2 k = (if 0 \<le> k then 2 ^ nat k else 1 / 2 ^ nat (- k))"

function log2_int :: "int \<Rightarrow> int" where
  "log2_int n = (if n < 2 then 0 else 1 + log2_int (n div 2))"
  by pat_completeness auto
termination
  by (relation "measure nat") auto

declare log2_int.simps [simp del]

definition log2_floor :: "rat \<Rightarrow> int" where
  "log2_floor q =
     (if 1 \<le> q then log2_int \<lfloor>q\<rfloor>
      else (let k = log2_int \<lfloor>1 / q\<rfloor> in
            if q = pow2 (- k) then - k else - (k + 1)))"

definition round_half_even :: "rat \<Rightarrow> int" where
  "round_half_even m =
     (let f = \<lfloor>m\<rfloor>; d = m - of_int f in
      if d < 1 / 2 then f else if 1 / 2 < d then f + 1 else if even f then f else f + 1)"

definition round_positive :: "rat \<Rightarrow> number" where
  "round_positive q =
     (let ulp = pow2 (max (log2_floor q) (- 1022) - 52);
          v = of_int (round_half_even (q / ulp)) * ulp in
      if pow2 1024 \<le> v then Infinite True else Finite v)"

definition round_double :: "rat \<Rightarrow> number" where
  "round_double q =
     (if q = 0 then Finite 0
      else if 0 < q then round_positive q
      else (case round_positive (- q) of
              Finite v \<Rightarrow> Finite (- v)
            | Infinite b \<Rightarrow> Infinite False
            | NaN \<Rightarrow> NaN))"

definition is_blank :: "char \<Rightarrow> bool" where
  "is_blank c = (c \<in> set [CHR '' '', CHR 0x09, CHR 0x0A, CHR 0x0B, CHR 0x0C, CHR 0x0D, CHR 0xA0])"

definition trim :: "string \<Rightarrow> string" where
  "trim s = rev (dropWhile is_blank (rev (dropWhile is_blank s)))"

definition radix_digit :: "char \<Rightarrow> int option" where
  "radix_digit c =
     (let n = (of_char c :: int) in
      if 48 \<le> n \<and> n \<le> 57 then Some (n - 48)
      else if 97 \<le> n \<and> n \<le> 102 then Some (n - 87)
      else if 65 \<le> n \<and> n \<le> 70 then Some (n - 55)
      else None)"

definition read_radix :: "int \<Rightarrow> string \<Rightarrow> int option" where
  "read_radix b ds =
     (if ds \<noteq> [] \<and> list_all (\<lambda>c. case radix_digit c of None \<Rightarrow> False | Some d \<Rightarrow> d < b) ds
      then Some (foldl (\<lambda>a c. b * a + the (radix_digit c)) 0 ds)
      else None)"

definition radix_literal :: "string \<Rightarrow> int option" where
  "radix_literal s =
     (if take 2 s \<in> set [''0x'', ''0X''] then read_radix 16 (drop 2 s)
      else if take 2 s \<in> set [''0o'', ''0O''] then read_radix 8 (drop 2 s)
      else if take 2 s \<in> set [''0b'', ''0B''] then read_radix 2 (drop 2 s)
      else None)"

definition exponent_part :: "string \<Rightarrow> int option" where
  "exponent_part s =
     (if s = [] then Some 0
      else if hd s \<in> set ''eE'' then
        (let t = tl s;
             ds = (if take 1 t \<in> set [''+'', ''-''] then drop 1 t else t) in
         if ds \<noteq> [] \<and> list_all is_digit ds
         then Some (if take 1 t = ''-'' then - read_int ds else read_int ds)
         else None)
      else None)"

definition pow10 :: "int \<Rightarrow> rat" where
  "pow10 k = (if 0 \<le> k then 10 ^ nat k else 1 / 10 ^ nat (- k))"

definition unsigned_decimal :: "string \<Rightarrow> number" where
  "unsigned_decimal s =
     (if s = ''Infinity'' then Infinite True
      else
        (let ip = takeWhile is_digit s;
             r1 = dropWhile is_digit s;
             fp = (if take 1 r1 = ''.'' then takeWhile is_digit (drop 1 r1) else []);
             r2 = (if take 1 r1 = ''.'' then dropWhile is_digit (drop 1 r1) else r1) in
         if ip = [] \<and> fp = [] then NaN
         else (case exponent_part r2 of
                 None \<Rightarrow> NaN
               | Some e \<Rightarrow>
                   round_double (of_int (read_int (ip @ fp)) * pow10 (e - int (length fp))))))"

definition negate :: "number \<Rightarrow> number" where
  "negate x = (case x of NaN \<Rightarrow> NaN | Finite v \<Rightarrow> Finite (- v) | Infinite b \<Rightarrow> Infinite (\<not> b))"

definition string_to_number :: "string \<Rightarrow> number" where
  "string_to_number s =
     (case trim s of
        [] \<Rightarrow> Finite 0
      | c # cs \<Rightarrow>
          (case radix_literal (c # cs) of
             Some n \<Rightarrow> round_double (of_int n)
           | None \<Rightarrow>
               if c = CHR ''-'' then negate (unsigned_decimal cs)
               else if c = CHR ''+'' then unsigned_decimal cs
               else unsigned_decimal (c # cs)))"

fun to_number :: "jsval \<Rightarrow> number" where
  "to_number JUndefined = NaN"
| "to_number JNull = Finite 0"
| "to_number (JBool b) = Finite (if b then 1 else 0)"
| "to_number (JNum n) = Finite (of_int n)"
| "to_number (JStr s) = string_to_number s"

fun num_less :: "number \<Rightarrow> number \<Rightarrow> bool" where
  "num_less (Finite x) (Finite y) = (x < y)"
| "num_less (Finite x) (Infinite b) = b"
| "num_less (Infinite a) (Finite y) = (\<not> a)"
| "num_less (Infinite a) (Infinite b) = (\<not> a \<and> b)"
| "num_less x y = False"

fun js_gt :: "jsval \<Rightarrow> jsval \<Rightarrow> bool" where
  "js_gt (JStr s) (JStr t) = str_less t s"
| "js_gt a b = num_less (to_number b) (to_number a)"

section \<open>helpers/sql.js: sqlForPartialUpdate\<close>

text \<open>
  \<^verbatim>\<open>jsToSql\<close> is an object literal whose own properties map application field names to
  column names (strings). \<^verbatim>\<open>jsToSql[colName]\<close> reads its own property of that name or, when it
  has none, the property that it inherits from \<^verbatim>\<open>Object.prototype\<close>: the function
  \<^verbatim>\<open>Object\<close> for \<open>constructor\<close>, the prototype object for \<open>__proto__\<close>, a built-in function
  for ten further names, and \<^verbatim>\<open>undefined\<close> for every other name. An inherited value is kept
  as the text that a template literal prints for it.
\<close>

datatype property = Undefined | Text string | Builtin string

definition object_prototype_functions :: "string list" where
  "object_prototype_functions =
     [''__defineGetter__'', ''__defineSetter__'', ''hasOwnProperty'', ''__lookupGetter__'',
      ''__lookupSetter__'', ''isPrototypeOf'', ''propertyIsEnumerable'', ''toString'',
      ''valueOf'', ''toLocaleString'']"

definition inherited :: "string \<Rightarrow> property" where
  "inherited k =
     (if k = ''constructor'' then Builtin ''function Object() { [native code] }''
      else if k = ''__proto__'' then Builtin ''[object Object]''
      else if k \<in> set object_prototype_functions
        then Builtin (''function '' @ k @ ''() { [native code] }'')
      else Undefined)"

definition get_override :: "(string \<rightharpoonup> string) \<Rightarrow> string \<Rightarrow> property" where
  "get_override jsToSql colName =
     (case jsToSql colName of Some c \<Rightarrow> Text c | None \<Rightarrow> inherited colName)"

text \<open>\<^verbatim>\<open>a || b\<close> in a template literal: the text of \<open>a\<close> when \<open>a\<close> is truthy and \<open>b\<close>
  otherwise. \<^verbatim>\<open>undefined\<close> and the empty string are falsy, every object is truthy.\<close>

fun truthy :: "property \<Rightarrow> bool" where
  "truthy Undefined = False"
| "truthy (Text s) = (s \<noteq> [])"
| "truthy (Builtin t) = True"

fun text_of :: "property \<Rightarrow> string" where
  "text_of Undefined = ''undefined''"
| "text_of (Text s) = s"
| "text_of (Builtin t) = t"

definition js_or :: "property \<Rightarrow> string \<Rightarrow> string" where
  "js_or a b = (if truthy a then text_of a else b)"

text \<open>The local \<^verbatim>\<open>cols\<close>:
  \<^verbatim>\<open>keys.map((colName, idx) => `"${jsToSql[colName] || colName}"=$${idx + 1}`)\<close>.\<close>

definition cols :: "string list \<Rightarrow> (string \<rightharpoonup> string) \<Rightarrow> string list" where
  "cols ks jsToSql =
     map (\<lambda>(colName, idx).
            ''\"'' @ js_or (get_override jsToSql colName) colName @ ''\"=$'' @ show_nat (idx + 1))
       (zip ks [0..<length ks])"

record 'v partial_update =
  setCols :: string
  values' :: "'v list"

definition sqlForPartialUpdate ::
    "'v obj \<Rightarrow> (string \<rightharpoonup> string) \<Rightarrow> error + 'v partial_update" where
  "sqlForPartialUpdate dataToUpdate jsToSql =
     (if length (keys dataToUpdate) = 0 then Inl (BadRequestError ''No data'')
      else Inr \<lparr>setCols = join '', '' (cols (keys dataToUpdate) jsToSql),
                values' = vals dataToUpdate\<rparr>)"

section \<open>The store behind \<^verbatim>\<open>db.query\<close>\<close>

text \<open>
  Modelled from the spec: the schema and the storage client (\<^verbatim>\<open>db.js\<close> and the schema file
  are not among the sources). The spec gives the tables
  \<^verbatim>\<open>companies(handle PK, name, description, num_employees, logo_url)\<close> and
  \<^verbatim>\<open>jobs(id PK generated, title, salary, equity, company_handle FK->companies.handle)\<close>.

  A row maps its column names to stored values; results are rows keyed by the names of the
  statement's select list, holding stored values. A statement is one of the three forms the
  models send. Its fixed text is the constructor; the text that the code computes (the SET
  clause and the key placeholder of an UPDATE, everything after the table name of a
  filtered SELECT) is carried as the string the code builds, and the store reads it back
  from that string:
  \<^item> \<open>Select t tail\<close> is \<^verbatim>\<open>SELECT <select list of t> FROM t\<close> followed by \<open>tail\<close>;
  \<^item> \<open>SelectCompanyJobs\<close> is the statement of \<^verbatim>\<open>Company.get\<close>, companies left-joined with
    jobs, \<^verbatim>\<open>WHERE handle = $1\<close>;
  \<^item> \<open>Update t s k p\<close> is \<^verbatim>\<open>UPDATE t SET s WHERE k = p RETURNING <select list of t>\<close>.
  The store records every statement it is sent with its parameters, in \<open>queries\<close>.
\<close>

datatype sqlval = SqlNull | SqlNum rat | SqlText string

type_synonym row = "(string \<times> sqlval) list"

datatype statement =
    Select string string
  | SelectCompanyJobs
  | Update string string string string

record database =
  companies :: "row list"
  jobs :: "row list"
  queries :: "(statement \<times> jsval list) list"

text \<open>
  What the storage engine decides and the sources do not: whether it accepts a statement
  at all (types, constraints), how it converts a bound parameter for a column, its
  \<^verbatim>\<open>ILIKE\<close> pattern matching (text, pattern) and the collation of text, as a sort key.
\<close>

record engine =
  accepts :: "statement \<Rightarrow> jsval list \<Rightarrow> database \<Rightarrow> bool"
  cast :: "string \<Rightarrow> jsval \<Rightarrow> sqlval"
  ilike :: "string \<Rightarrow> string \<Rightarrow> bool"
  collate :: "string \<Rightarrow> rat"

definition row_get :: "row \<Rightarrow> string \<Rightarrow> sqlval" where
  "row_get r c = (case map_of r c of None \<Rightarrow> SqlNull | Some v \<Rightarrow> v)"

definition row_set :: "string \<Rightarrow> sqlval \<Rightarrow> row \<Rightarrow> row" where
  "row_set c v r = map (\<lambda>(k, x). if k = c then (k, v) else (k, x)) r"

definition table_columns :: "string \<Rightarrow> string list" where
  "table_columns t =
     (if t = ''companies'' then [''handle'', ''name'', ''description'', ''num_employees'', ''logo_url'']
      else if t = ''jobs'' then [''id'', ''title'', ''salary'', ''equity'', ''company_handle'']
      else [])"

definition table_rows :: "database \<Rightarrow> string \<Rightarrow> row list" where
  "table_rows db t =
     (if t = ''companies'' then companies db else if t = ''jobs'' then jobs db else [])"

text \<open>The select list of the statements on one table, and of their \<^verbatim>\<open>RETURNING\<close> clause:
  the result name and the column it shows.\<close>

definition select_list :: "string \<Rightarrow> (string \<times> string) list" where
  "select_list t =
     (if t = ''companies'' then
        [(''handle'', ''handle''), (''name'', ''name''), (''description'', ''description''),
         (''numEmployees'', ''num_employees''), (''logoUrl'', ''logo_url'')]
      else if t = ''jobs'' then
        [(''id'', ''id''), (''title'', ''title''), (''salary'', ''salary''),
         (''equity'', ''equity''), (''companyHandle'', ''company_handle'')]
      else [])"

definition project :: "(string \<times> string) list \<Rightarrow> row \<Rightarrow> row" where
  "project sel r = map (\<lambda>(out, c). (out, row_get r c)) sel"

subsection \<open>Reading the computed text\<close>

text \<open>A quoted identifier: up to the closing double quote, a doubled quote standing for
  one quote character.\<close>

fun read_ident :: "string \<Rightarrow> string \<Rightarrow> (string \<times> string) option" where
  "read_ident acc [] = None"
| "read_ident acc [c] = (if c = CHR 0x22 then Some (acc, []) else None)"
| "read_ident acc (c # d # r) =
     (if c = CHR 0x22 then
        (if d = CHR 0x22 then read_ident (acc @ [c]) r else Some (acc, d # r))
      else read_ident (acc @ [c]) (d # r))"

text \<open>A placeholder \<^verbatim>\<open>$n\<close>.\<close>

definition read_placeholder :: "string \<Rightarrow> nat option" where
  "read_placeholder s =
     (case s of [] \<Rightarrow> None
      | c # ds \<Rightarrow> if c = CHR ''$'' \<and> ds \<noteq> [] \<and> list_all is_digit ds
                  then Some (read_nat ds) else None)"

text \<open>The SET clause: \<^verbatim>\<open>"column"=$n\<close>, separated by a comma and a space.\<close>

function read_set :: "string \<Rightarrow> (string \<times> nat) list option" where
  "read_set s =
     (case s of
        [] \<Rightarrow> None
      | q # r \<Rightarrow>
          if q = CHR 0x22 then
            (case read_ident [] r of
               None \<Rightarrow> None
             | Some (name, r1) \<Rightarrow>
                 if name \<noteq> [] \<and> take 1 r1 = ''='' then
                   (case read_placeholder (take 1 (drop 1 r1) @ takeWhile is_digit (drop 2 r1)) of
                      None \<Rightarrow> None
                    | Some n \<Rightarrow>
                        if dropWhile is_digit (drop 2 r1) = [] then Some [(name, n)]
                        else if take 2 (dropWhile is_digit (drop 2 r1)) = '', '' then
                          map_option ((#) (name, n))
                            (read_set (drop 2 (dropWhile is_digit (drop 2 r1))))
                        else None)
                 else None)
          else None)"
  by pat_completeness auto
termination
proof (relation "measure length", goal_cases)
  case 1
  show ?case by simp
next
  case (2 s q r x2 name r1 n)
  have shorter: "read_ident acc t = Some (nm, u) \<Longrightarrow> length u < length t" for acc t nm u
    by (induction acc t rule: read_ident.induct) (auto split: if_splits)
  have "length r1 < length r"
    using 2 shorter by metis
  moreover have "length (dropWhile is_digit (drop 2 r1)) \<le> length (drop 2 r1)"
    by (rule length_dropWhile_le)
  ultimately show ?case
    using 2 by simp
qed

declare read_set.simps [simp del]

text \<open>The text after the table name of a SELECT: blank-separated words, an optional
  \<^verbatim>\<open>WHERE\<close> with conditions \<^verbatim>\<open>column operator operand\<close> joined by \<^verbatim>\<open>AND\<close>, then
  \<^verbatim>\<open>ORDER BY column\<close>.\<close>

fun words :: "string \<Rightarrow> string \<Rightarrow> string list" where
  "words cur [] = (if cur = [] then [] else [cur])"
| "words cur (c # cs) =
     (if c = CHR '' '' then (if cur = [] then words [] cs else cur # words [] cs)
      else words (cur @ [c]) cs)"

datatype operand = Placeholder nat | Literal nat

type_synonym cond = "string \<times> string \<times> operand"

definition read_operand :: "string \<Rightarrow> operand option" where
  "read_operand a =
     (case read_placeholder a of
        Some n \<Rightarrow> Some (Placeholder n)
      | None \<Rightarrow> if a \<noteq> [] \<and> list_all is_digit a then Some (Literal (read_nat a)) else None)"

definition read_cond :: "string \<Rightarrow> string \<Rightarrow> string \<Rightarrow> cond option" where
  "read_cond c op a =
     (if op \<in> set [''ILIKE'', ''>='', ''<='', ''>''] then
        (case read_operand a of None \<Rightarrow> None | Some x \<Rightarrow> Some (c, op, x))
      else None)"

fun read_conds :: "string list \<Rightarrow> (cond list \<times> string list) option" where
  "read_conds (c # op # a # rest) =
     (case read_cond c op a of
        None \<Rightarrow> None
      | Some x \<Rightarrow>
          (case rest of
             [] \<Rightarrow> Some ([x], [])
           | t # rest' \<Rightarrow>
               if t = ''AND'' then
                 (case read_conds rest' of None \<Rightarrow> None | Some (xs, r) \<Rightarrow> Some (x # xs, r))
               else Some ([x], rest)))"
| "read_conds ws = None"

definition read_order :: "string list \<Rightarrow> string option" where
  "read_order ws =
     (if length ws = 3 \<and> take 2 ws = [''ORDER'', ''BY''] then Some (ws ! 2) else None)"

definition parse_tail :: "string \<Rightarrow> (cond list \<times> string) option" where
  "parse_tail s =
     (case words [] s of
        [] \<Rightarrow> None
      | w # ws \<Rightarrow>
          if w = ''WHERE'' then
            (case read_conds ws of
               None \<Rightarrow> None
             | Some (cs, rest) \<Rightarrow> map_option (Pair cs) (read_order rest))
          else map_option (Pair []) (read_order (w # ws)))"

subsection \<open>Running a statement\<close>

text \<open>Comparison of stored values: numbers by value, text by collation; a comparison with
  \<^verbatim>\<open>NULL\<close> selects no row.\<close>

fun sql_less :: "engine \<Rightarrow> sqlval \<Rightarrow> sqlval \<Rightarrow> bool" where
  "sql_less E (SqlNum x) (SqlNum y) = (x < y)"
| "sql_less E (SqlText s) (SqlText t) = (collate E s < collate E t)"
| "sql_less E a b = False"

fun sql_le :: "engine \<Rightarrow> sqlval \<Rightarrow> sqlval \<Rightarrow> bool" where
  "sql_le E (SqlNum x) (SqlNum y) = (x \<le> y)"
| "sql_le E (SqlText s) (SqlText t) = (collate E s \<le> collate E t)"
| "sql_le E a b = False"

fun sql_ilike :: "engine \<Rightarrow> sqlval \<Rightarrow> sqlval \<Rightarrow> bool" where
  "sql_ilike E (SqlText s) (SqlText p) = ilike E s p"
| "sql_ilike E a b = False"

fun operand_value :: "engine \<Rightarrow> jsval list \<Rightarrow> string \<Rightarrow> operand \<Rightarrow> sqlval" where
  "operand_value E params c (Placeholder n) = cast E c (params ! (n - 1))"
| "operand_value E params c (Literal n) = SqlNum (of_nat n)"

definition holds :: "engine \<Rightarrow> jsval list \<Rightarrow> row \<Rightarrow> cond \<Rightarrow> bool" where
  "holds E params r cnd =
     (case cnd of (c, op, a) \<Rightarrow>
        (let x = row_get r c; y = operand_value E params c a in
         if op = ''ILIKE'' then sql_ilike E x y
         else if op = ''>='' then sql_le E y x
         else if op = ''<='' then sql_le E x y
         else if op = ''>'' then sql_less E y x
         else False))"

fun operand_ok :: "nat \<Rightarrow> operand \<Rightarrow> bool" where
  "operand_ok n (Placeholder k) = (1 \<le> k \<and> k \<le> n)"
| "operand_ok n (Literal k) = True"

definition cond_ok :: "string list \<Rightarrow> nat \<Rightarrow> cond \<Rightarrow> bool" where
  "cond_ok columns n cnd = (case cnd of (c, op, a) \<Rightarrow> c \<in> set columns \<and> operand_ok n a)"

text \<open>\<^verbatim>\<open>ORDER BY column\<close>, ascending, rows whose value is \<^verbatim>\<open>NULL\<close> last.\<close>

fun ord_key :: "engine \<Rightarrow> sqlval \<Rightarrow> rat" where
  "ord_key E (SqlNum q) = q"
| "ord_key E (SqlText s) = collate E s"
| "ord_key E SqlNull = 0"

definition order_by :: "engine \<Rightarrow> string \<Rightarrow> row list \<Rightarrow> row list" where
  "order_by E c rows =
     sort_key (\<lambda>r. ord_key E (row_get r c)) (filter (\<lambda>r. row_get r c \<noteq> SqlNull) rows)
     @ filter (\<lambda>r. row_get r c = SqlNull) rows"

definition run_select :: "engine \<Rightarrow> database \<Rightarrow> string \<Rightarrow> string \<Rightarrow> jsval list \<Rightarrow> row list option" where
  "run_select E db t tail params =
     (case parse_tail tail of
        None \<Rightarrow> None
      | Some (cs, c) \<Rightarrow>
          if c \<in> set (table_columns t) \<and> list_all (cond_ok (table_columns t) (length params)) cs
          then Some (map (project (select_list t))
                 (order_by E c (filter (\<lambda>r. list_all (holds E params r) cs) (table_rows db t))))
          else None)"

text \<open>The statement of \<^verbatim>\<open>Company.get\<close>: companies left-joined with their jobs, the rows of
  the company whose handle is the parameter.\<close>

definition join_row :: "row \<Rightarrow> row \<Rightarrow> row" where
  "join_row c j =
     project (select_list ''companies'') c
     @ project [(''id'', ''id''), (''title'', ''title''), (''salary'', ''salary''),
                (''equity'', ''equity'')] j"

definition key_matches :: "sqlval \<Rightarrow> row \<Rightarrow> string \<Rightarrow> bool" where
  "key_matches v r c = (if v = SqlNull then False else row_get r c = v)"

definition left_join :: "row list \<Rightarrow> row \<Rightarrow> row list" where
  "left_join js c =
     (let mine = filter (\<lambda>j. key_matches (row_get c ''handle'') j ''company_handle'') js in
      if mine = [] then [join_row c []] else map (join_row c) mine)"

definition run_company_jobs :: "engine \<Rightarrow> database \<Rightarrow> jsval list \<Rightarrow> row list option" where
  "run_company_jobs E db params =
     (if length params = 1 then
        Some (concat (map (left_join (jobs db))
                (filter (\<lambda>c. key_matches (cast E ''handle'' (params ! 0)) c ''handle'')
                   (companies db))))
      else None)"

text \<open>\<^verbatim>\<open>UPDATE t SET ... WHERE key = $k RETURNING ...\<close>: every assignment names a column of
  the table, once, and a parameter that is bound; the rows whose key equals the parameter
  are assigned and returned.\<close>

definition assign :: "engine \<Rightarrow> jsval list \<Rightarrow> (string \<times> nat) list \<Rightarrow> row \<Rightarrow> row" where
  "assign E params asg r = fold (\<lambda>(c, n). row_set c (cast E c (params ! (n - 1)))) asg r"

definition run_update ::
    "engine \<Rightarrow> database \<Rightarrow> string \<Rightarrow> string \<Rightarrow> string \<Rightarrow> string \<Rightarrow> jsval list
      \<Rightarrow> (row list \<times> row list) option" where
  "run_update E db t set_text key key_text params =
     (case read_set set_text of
        None \<Rightarrow> None
      | Some asg \<Rightarrow>
          (case read_placeholder key_text of
             None \<Rightarrow> None
           | Some k \<Rightarrow>
               if set (map fst asg) \<subseteq> set (table_columns t) \<and> distinct (map fst asg)
                  \<and> list_all (\<lambda>n. 1 \<le> n \<and> n \<le> length params) (k # map snd asg)
                  \<and> key \<in> set (table_columns t)
               then
                 (let v = cast E key (params ! (k - 1));
                      hit = (\<lambda>r. key_matches v r key) in
                  Some (map (\<lambda>r. if hit r then assign E params asg r else r) (table_rows db t),
                        map (\<lambda>r. project (select_list t) (assign E params asg r))
                          (filter hit (table_rows db t))))
               else None))"

text \<open>The constraints that the spec gives the schema: \<open>handle\<close> and \<open>id\<close> are primary
  keys (present and unique), and the \<open>company_handle\<close> of a job, when it is not \<^verbatim>\<open>NULL\<close>,
  is the handle of a stored company.\<close>

definition consistent :: "row list \<Rightarrow> row list \<Rightarrow> bool" where
  "consistent cs js =
     (distinct (map (\<lambda>r. row_get r ''handle'') cs)
      \<and> SqlNull \<notin> set (map (\<lambda>r. row_get r ''handle'') cs)
      \<and> distinct (map (\<lambda>r. row_get r ''id'') js)
      \<and> SqlNull \<notin> set (map (\<lambda>r. row_get r ''id'') js)
      \<and> list_all (\<lambda>j. row_get j ''company_handle'' = SqlNull
                       \<or> row_get j ''company_handle'' \<in> set (map (\<lambda>r. row_get r ''handle'') cs)) js)"

text \<open>\<^verbatim>\<open>db.query(text, params)\<close>: the statement is recorded; it fails when the engine rejects
  it, when the text does not read as a statement on the table, or when an update would
  break a constraint, and then nothing is stored.\<close>

definition db_query ::
    "engine \<Rightarrow> database \<Rightarrow> statement \<Rightarrow> jsval list \<Rightarrow> database \<times> (error + row list)" where
  "db_query E db stmt params =
     (let db1 = db\<lparr>queries := queries db @ [(stmt, params)]\<rparr> in
      if accepts E stmt params db then
        (case stmt of
           Select t tail \<Rightarrow>
             (case run_select E db t tail params of
                None \<Rightarrow> (db1, Inl StorageError)
              | Some rows \<Rightarrow> (db1, Inr rows))
         | SelectCompanyJobs \<Rightarrow>
             (case run_company_jobs E db params of
                None \<Rightarrow> (db1, Inl StorageError)
              | Some rows \<Rightarrow> (db1, Inr rows))
         | Update t set_text key key_text \<Rightarrow>
             (case run_update E db t set_text key key_text params of
                None \<Rightarrow> (db1, Inl StorageError)
              | Some (stored, rows) \<Rightarrow>
                  (let db2 = (if t = ''companies'' then db1\<lparr>companies := stored\<rparr>
                              else if t = ''jobs'' then db1\<lparr>jobs := stored\<rparr> else db1) in
                   if consistent (companies db2) (jobs db2) then (db2, Inr rows)
                   else (db1, Inl StorageError))))
      else (db1, Inl StorageError))"

section \<open>models/company.js and models/job.js\<close>

text \<open>
  Each method takes the storage engine and the store, and returns the store it leaves with
  the value it resolves to or the error it rejects with. The two lines
  \<^verbatim>\<open>queryArray.push(v); expressions.push(`... $${queryArray.length}`)\<close> are \<open>push_filter\<close>.
\<close>

definition push_filter ::
    "string \<Rightarrow> jsval \<Rightarrow> jsval list \<times> string list \<Rightarrow> jsval list \<times> string list" where
  "push_filter text v st =
     (case st of (queryArray, expressions) \<Rightarrow>
        (queryArray @ [v], expressions @ [text @ show_nat (length (queryArray @ [v]))]))"

definition where_clause :: "string list \<Rightarrow> string" where
  "where_clause expressions =
     (if length expressions > 0 then '' WHERE '' @ join '' AND '' expressions else [])"

definition Company_findAll ::
    "engine \<Rightarrow> database \<Rightarrow> jsval obj \<Rightarrow> database \<times> (error + row list)" where
  "Company_findAll E db searchFilters =
     (let allowedFilters = [''name'', ''minEmployees'', ''maxEmployees''];
          invalidFilters = filter (\<lambda>key. key \<notin> set allowedFilters) (keys searchFilters)
      in
      if length invalidFilters > 0 then
        (db, Inl (BadRequestError (''Invalid filter(s): '' @ join '', '' invalidFilters)))
      else
        (let name = get_prop searchFilters ''name'';
             minEmployees = get_prop searchFilters ''minEmployees'';
             maxEmployees = get_prop searchFilters ''maxEmployees''
         in
         if js_gt minEmployees maxEmployees then
           (db, Inl (BadRequestError ''minEmployees cannot be greater than maxEmployees''))
         else
           (let st0 = ([], []);
                st1 = (if name \<noteq> JUndefined
                       then push_filter ''name ILIKE $'' (JStr (''%'' @ to_string name @ ''%'')) st0
                       else st0);
                st2 = (if minEmployees \<noteq> JUndefined
                       then push_filter ''num_employees >= $'' minEmployees st1 else st1);
                st3 = (if maxEmployees \<noteq> JUndefined
                       then push_filter ''num_employees <= $'' maxEmployees st2 else st2);
                query = where_clause (snd st3) @ '' ORDER BY name''
            in db_query E db (Select ''companies'' query) (fst st3))))"

definition Company_get ::
    "engine \<Rightarrow> database \<Rightarrow> jsval \<Rightarrow> database \<times> (error + row list)" where
  "Company_get E db handle =
     (case db_query E db SelectCompanyJobs [handle] of
        (db', Inl e) \<Rightarrow> (db', Inl e)
      | (db', Inr company) \<Rightarrow>
          if company = [] then (db', Inl (NotFoundError (''No company: '' @ to_string handle)))
          else (db', Inr company))"

definition Company_update ::
    "engine \<Rightarrow> database \<Rightarrow> jsval \<Rightarrow> jsval obj \<Rightarrow> database \<times> (error + row)" where
  "Company_update E db handle data =
     (case sqlForPartialUpdate data
             [''numEmployees'' \<mapsto> ''num_employees'', ''logoUrl'' \<mapsto> ''logo_url''] of
        Inl e \<Rightarrow> (db, Inl e)
      | Inr u \<Rightarrow>
          (let handleVarIdx = ''$'' @ show_nat (length (values' u) + 1) in
           case db_query E db (Update ''companies'' (setCols u) ''handle'' handleVarIdx)
                  (values' u @ [handle]) of
             (db', Inl e) \<Rightarrow> (db', Inl e)
           | (db', Inr rows) \<Rightarrow>
               (case rows of
                  [] \<Rightarrow> (db', Inl (NotFoundError (''No company: '' @ to_string handle)))
                | company # rest \<Rightarrow> (db', Inr company))))"

definition Job_findAll ::
    "engine \<Rightarrow> database \<Rightarrow> jsval obj \<Rightarrow> database \<times> (error + row list)" where
  "Job_findAll E db searchFilters =
     (let allowedFilters = [''title'', ''minSalary'', ''hasEquity''];
          invalidFilters = filter (\<lambda>key. key \<notin> set allowedFilters) (keys searchFilters)
      in
      if length invalidFilters > 0 then
        (db, Inl (BadRequestError (''Invalid filter(s): '' @ join '', '' invalidFilters)))
      else
        (let title = get_prop searchFilters ''title'';
             minSalary = get_prop searchFilters ''minSalary'';
             hasEquity = get_prop searchFilters ''hasEquity'';
             st0 = ([], []);
             st1 = (if title \<noteq> JUndefined
                    then push_filter ''title ILIKE $'' (JStr (''%'' @ to_string title @ ''%'')) st0
                    else st0);
             st2 = (if minSalary \<noteq> JUndefined
                    then push_filter ''salary >= $'' minSalary st1 else st1);
             expressions = (if hasEquity = JStr ''true'' then snd st2 @ [''equity > 0'']
                            else snd st2);
             query = where_clause expressions @ '' ORDER BY id''
         in db_query E db (Select ''jobs'' query) (fst st2)))"

definition Job_update ::
    "engine \<Rightarrow> database \<Rightarrow> jsval \<Rightarrow> jsval obj \<Rightarrow> database \<times> (error + row)" where
  "Job_update E db id' data =
     (case sqlForPartialUpdate data [''companyHandle'' \<mapsto> ''company_handle''] of
        Inl e \<Rightarrow> (db, Inl e)
      | Inr u \<Rightarrow>
          (let handleVarIdx = ''$'' @ show_nat (length (values' u) + 1) in
           case db_query E db (Update ''jobs'' (setCols u) ''id'' handleVarIdx)
                  (values' u @ [id']) of
             (db', Inl e) \<Rightarrow> (db', Inl e)
           | (db', Inr rows) \<Rightarrow>
               (case rows of
                  [] \<Rightarrow> (db', Inl (NotFoundError (''No job found with id: '' @ to_string id')))
                | job # rest \<Rightarrow> (db', Inr job))))"

section \<open>A sample engine and store\<close>

text \<open>An engine that raises no objection of its own (the keys of the schema are checked
  by the store), stores strings as text and numbers as numbers, matches a pattern
  \<^verbatim>\<open>%s%\<close> when \<open>s\<close> occurs in the text as it is, and collates text by length.\<close>

fun sample_cast :: "string \<Rightarrow> jsval \<Rightarrow> sqlval" where
  "sample_cast c (JStr s) = SqlText s"
| "sample_cast c (JNum n) = SqlNum (of_int n)"
| "sample_cast c v = SqlNull"

fun occurs_in :: "string \<Rightarrow> string \<Rightarrow> bool" where
  "occurs_in p [] = (p = [])"
| "occurs_in p (c # cs) = (if take (length p) (c # cs) = p then True else occurs_in p cs)"

definition sample_engine :: engine where
  "sample_engine =
     \<lparr>accepts = (\<lambda>stmt params db. True),
      cast = sample_cast,
      ilike = (\<lambda>text pattern. occurs_in (butlast (tl pattern)) text),
      collate = (\<lambda>s. of_nat (length s))\<rparr>"

definition sample_db :: database where
  "sample_db =
     \<lparr>companies =
        [[(''handle'', SqlText ''c1''), (''name'', SqlText ''C1''),
          (''description'', SqlText ''Desc1''), (''num_employees'', SqlNum 1),
          (''logo_url'', SqlText ''http://c1.img'')],
         [(''handle'', SqlText ''c2''), (''name'', SqlText ''C2''),
          (''description'', SqlText ''Desc2''), (''num_employees'', SqlNum 2),
          (''logo_url'', SqlNull)]],
      jobs =
        [[(''id'', SqlNum 1), (''title'', SqlText ''test''), (''salary'', SqlNum 75000),
          (''equity'', SqlNum (87 / 100)), (''company_handle'', SqlText ''c1'')],
         [(''id'', SqlNum 2), (''title'', SqlText ''test2''), (''salary'', SqlNum 100000),
          (''equity'', SqlNum 0), (''company_handle'', SqlText ''c2'')],
         [(''id'', SqlNum 3), (''title'', SqlText ''test3''), (''salary'', SqlNum 120000),
          (''equity'', SqlNum (12 / 1000)), (''company_handle'', SqlText ''c2'')],
         [(''id'', SqlNum 4), (''title'', SqlText ''test4''), (''salary'', SqlNull),
          (''equity'', SqlNull), (''company_handle'', SqlText ''c1'')]],
      queries = []\<rparr>"

text \<open>A store with one company that no job refers to.\<close>

definition lone_db :: database where
  "lone_db =
     \<lparr>companies =
        [[(''handle'', SqlText ''c3''), (''name'', SqlText ''C3''),
          (''description'', SqlText ''Desc3''), (''num_employees'', SqlNum 3),
          (''logo_url'', SqlText ''http://c3.img'')]],
      jobs = [],
      queries = []\<rparr>"

section \<open>Properties of objects and of sqlForPartialUpdate\<close>

lemma length_own_entries: "length (own_entries o1) = length o1"
  by (simp add: own_entries_def sum_length_filter_compl)

lemma set_own_entries: "set (own_entries o1) = set o1"
  by (auto simp: own_entries_def)

lemma own_entries_plain:
  "list_all (\<lambda>p. \<not> is_array_index (fst p)) o1 \<Longrightarrow> own_entries o1 = o1"
  by (simp add: own_entries_def list_all_iff filter_empty_conv)

lemma own_entries_single: "own_entries [p] = [p]"
  by (simp add: own_entries_def)

lemma own_entries_Nil: "own_entries [] = []"
  by (simp add: own_entries_def)

lemma own_entries_empty_iff: "(own_entries o1 = []) = (o1 = [])"
  using length_own_entries [of o1] by (metis length_0_conv)

lemma length_keys: "length (keys o1) = length o1"
  by (simp add: keys_def length_own_entries)

lemma length_vals: "length (vals o1) = length o1"
  by (simp add: vals_def length_own_entries)

lemma keys_empty_iff: "(keys o1 = []) = (o1 = [])"
  by (simp add: keys_def own_entries_empty_iff)

lemma keys_Nil: "keys [] = []"
  by (simp add: keys_def own_entries_Nil)

lemma vals_Nil: "vals [] = []"
  by (simp add: vals_def own_entries_Nil)

lemma keys_plain: "list_all (\<lambda>p. \<not> is_array_index (fst p)) o1 \<Longrightarrow> keys o1 = map fst o1"
  by (simp add: keys_def own_entries_plain)

lemma vals_plain: "list_all (\<lambda>p. \<not> is_array_index (fst p)) o1 \<Longrightarrow> vals o1 = map snd o1"
  by (simp add: vals_def own_entries_plain)

lemma letter_first_no_index: "\<not> is_digit (hd k) \<Longrightarrow> \<not> is_array_index k"
  by (cases k) (auto simp: is_array_index_def)

lemma show_nat_1: "show_nat (Suc 0) = ''1''"
  by (simp add: show_nat.simps digit_char_def)

lemma join_as_concat: "join sep (x # xs) = x @ concat (map ((@) sep) xs)"
  by (induction sep "x # xs" arbitrary: x xs rule: join.induct) simp_all

lemma length_cols: "length (cols ks m) = length ks"
  by (simp add: cols_def)

lemma nth_cols:
  "i < length ks \<Longrightarrow>
     cols ks m ! i
       = ''\"'' @ js_or (get_override m (ks ! i)) (ks ! i) @ ''\"=$'' @ show_nat (i + 1)"
  by (simp add: cols_def)

lemma setCols_as_concat:
  assumes "dataToUpdate \<noteq> []"
  shows "sqlForPartialUpdate dataToUpdate jsToSql
     = Inr \<lparr>setCols = hd (cols (keys dataToUpdate) jsToSql)
                 @ concat (map ((@) '', '') (tl (cols (keys dataToUpdate) jsToSql))),
             values' = vals dataToUpdate\<rparr>"
proof -
  have ne: "keys dataToUpdate \<noteq> []"
    using assms by (simp add: keys_empty_iff)
  then have "cols (keys dataToUpdate) jsToSql \<noteq> []"
    using length_cols [of "keys dataToUpdate" jsToSql] by (metis length_0_conv)
  then obtain c cs where c: "cols (keys dataToUpdate) jsToSql = c # cs"
    by (cases "cols (keys dataToUpdate) jsToSql") auto
  show ?thesis
    using ne by (simp add: sqlForPartialUpdate_def c join_as_concat)
qed

text \<open>
  C1, as stated, says that the assignments and values follow the insertion order of the
  fields. They follow the order of \<^verbatim>\<open>Object.keys\<close>, which puts array-index keys first: for
  the object \<open>{b: 1, "2": 2, "1": 3}\<close>, whose first field is \<open>b\<close>, the first assignment is
  \<open>"1"=$1\<close> and the values are \<open>[3, 2, 1]\<close>.
\<close>

theorem assignments_not_in_insertion_order_counterexample:
  "fst ([(''b'', JNum 1), (''2'', JNum 2), (''1'', JNum 3)] ! 0) = ''b''
   \<and> sqlForPartialUpdate [(''b'', JNum 1), (''2'', JNum 2), (''1'', JNum 3)] Map.empty
       = Inr \<lparr>setCols = ''\"1\"=$1, \"2\"=$2, \"b\"=$3'',
               values' = [JNum 3, JNum 2, JNum 1]\<rparr>"
proof -
  have "sqlForPartialUpdate [(''b'', JNum 1), (''2'', JNum 2), (''1'', JNum 3)] Map.empty
       = Inr \<lparr>setCols = ''\"1\"=$1, \"2\"=$2, \"b\"=$3'',
               values' = [JNum 3, JNum 2, JNum 1]\<rparr>"
    by code_simp
  then show ?thesis by simp
qed

text \<open>
  C1, amended. On a non-empty \<open>dataToUpdate\<close> with \<open>N\<close> fields the function returns
  \<open>setCols\<close>, the \<open>N\<close> assignments \<open>cols\<close> separated by a comma and a space, and \<open>N\<close> values.
  The \<open>i\<close>-th assignment (from 1) is the resolved column name of the \<open>i\<close>-th field in double
  quotes followed by \<open>=$i\<close>, and the \<open>i\<close>-th value is the value of that field, the fields
  being taken in the order of \<^verbatim>\<open>Object.keys\<close>: the same fields, array-index keys first in
  ascending order, and in insertion order when no key is an array index. The assignment
  text is the same for every object with the same keys: no value enters it.
\<close>

theorem sqlForPartialUpdate_assignments:
  fixes dataToUpdate :: "'v obj"
  assumes "dataToUpdate \<noteq> []"
  shows "\<exists>r. sqlForPartialUpdate dataToUpdate jsToSql = Inr r
           \<and> setCols r = hd (cols (keys dataToUpdate) jsToSql)
                 @ concat (map ((@) '', '') (tl (cols (keys dataToUpdate) jsToSql)))
           \<and> length (cols (keys dataToUpdate) jsToSql) = length dataToUpdate
           \<and> length (values' r) = length dataToUpdate
           \<and> (\<forall>i < length dataToUpdate.
                 cols (keys dataToUpdate) jsToSql ! i =
                   ''\"'' @ js_or (get_override jsToSql (fst (own_entries dataToUpdate ! i)))
                              (fst (own_entries dataToUpdate ! i))
                     @ ''\"=$'' @ show_nat (i + 1)
                 \<and> values' r ! i = snd (own_entries dataToUpdate ! i))
           \<and> set (own_entries dataToUpdate) = set dataToUpdate
           \<and> (list_all (\<lambda>p. \<not> is_array_index (fst p)) dataToUpdate \<longrightarrow>
                 own_entries dataToUpdate = dataToUpdate)
           \<and> (\<forall>other :: 'v obj. keys other = keys dataToUpdate \<longrightarrow>
                 (\<exists>r'. sqlForPartialUpdate other jsToSql = Inr r' \<and> setCols r' = setCols r))"
proof -
  let ?text = "hd (cols (keys dataToUpdate) jsToSql)
      @ concat (map ((@) '', '') (tl (cols (keys dataToUpdate) jsToSql)))"
  let ?r = "\<lparr>setCols = ?text, values' = vals dataToUpdate\<rparr>"
  have res: "sqlForPartialUpdate dataToUpdate jsToSql = Inr ?r"
    using setCols_as_concat [OF assms] .
  have nth: "\<forall>i < length dataToUpdate.
      cols (keys dataToUpdate) jsToSql ! i =
        ''\"'' @ js_or (get_override jsToSql (fst (own_entries dataToUpdate ! i)))
                   (fst (own_entries dataToUpdate ! i))
          @ ''\"=$'' @ show_nat (i + 1)
      \<and> values' ?r ! i = snd (own_entries dataToUpdate ! i)"
    by (simp add: nth_cols length_keys) (simp add: keys_def vals_def length_own_entries)
  have same: "\<exists>r'. sqlForPartialUpdate other jsToSql = Inr r' \<and> setCols r' = setCols ?r"
    if k: "keys other = keys dataToUpdate" for other :: "'v obj"
  proof -
    have "other \<noteq> []"
      using k assms keys_empty_iff [of other] keys_empty_iff [of dataToUpdate] by simp
    then show ?thesis
      using setCols_as_concat [of other jsToSql] k by simp
  qed
  have plain: "list_all (\<lambda>p. \<not> is_array_index (fst p)) dataToUpdate \<longrightarrow>
      own_entries dataToUpdate = dataToUpdate"
    by (simp add: own_entries_plain)
  show ?thesis
    using res nth same plain
    by (simp add: length_cols length_keys length_vals set_own_entries)
qed

theorem sqlForPartialUpdate_assignments_witness:
  "[(''firstName'', ''Vera''), (''lastName'', ''Nouaime''), (''email'', ''test@gmail.com'')] \<noteq> []
   \<and> sqlForPartialUpdate
        [(''firstName'', ''Vera''), (''lastName'', ''Nouaime''), (''email'', ''test@gmail.com'')]
        [''firstName'' \<mapsto> ''first_name'', ''lastName'' \<mapsto> ''last_name'',
         ''isAdmin'' \<mapsto> ''is_admin'']
      = Inr \<lparr>setCols = ''\"first_name\"=$1, \"last_name\"=$2, \"email\"=$3'',
              values' = [''Vera'', ''Nouaime'', ''test@gmail.com'']\<rparr>
   \<and> own_entries
        [(''firstName'', ''Vera''), (''lastName'', ''Nouaime''), (''email'', ''test@gmail.com'')]
      = [(''firstName'', ''Vera''), (''lastName'', ''Nouaime''), (''email'', ''test@gmail.com'')]"
proof -
  let ?d = "[(''firstName'', ''Vera''), (''lastName'', ''Nouaime''), (''email'', ''test@gmail.com'')]"
  let ?m = "[''firstName'' \<mapsto> ''first_name'', ''lastName'' \<mapsto> ''last_name'',
             ''isAdmin'' \<mapsto> ''is_admin'']"
  have plain: "list_all (\<lambda>p. \<not> is_array_index (fst p)) ?d"
    by (simp add: letter_first_no_index is_digit_def)
  have ne: "?d \<noteq> []" by simp
  obtain r where r: "sqlForPartialUpdate ?d ?m = Inr r"
    and sc: "setCols r = hd (cols (keys ?d) ?m) @ concat (map ((@) '', '') (tl (cols (keys ?d) ?m)))"
    and vs: "\<forall>i < length ?d. values' r ! i = snd (own_entries ?d ! i)"
    and len: "length (values' r) = length ?d"
    and own: "list_all (\<lambda>p. \<not> is_array_index (fst p)) ?d \<longrightarrow> own_entries ?d = ?d"
    using sqlForPartialUpdate_assignments [OF ne, of ?m] by blast
  have o: "own_entries ?d = ?d"
    using own plain by blast
  have k: "keys ?d = [''firstName'', ''lastName'', ''email'']"
    by (simp add: keys_def o)
  have t: "setCols r = ''\"first_name\"=$1, \"last_name\"=$2, \"email\"=$3''"
    unfolding sc k
    by (simp add: cols_def js_or_def get_override_def inherited_def
        object_prototype_functions_def show_nat.simps digit_char_def)
  have v: "values' r = [''Vera'', ''Nouaime'', ''test@gmail.com'']"
  proof (rule nth_equalityI)
    show "length (values' r) = length [''Vera'', ''Nouaime'', ''test@gmail.com'']"
      using len by simp
  next
    fix i
    assume "i < length (values' r)"
    then have "i < 3" using len by simp
    then have "i = 0 \<or> i = 1 \<or> i = 2" by auto
    then show "values' r ! i = [''Vera'', ''Nouaime'', ''test@gmail.com''] ! i"
      using vs o by auto
  qed
  have "r = \<lparr>setCols = ''\"first_name\"=$1, \"last_name\"=$2, \"email\"=$3'',
              values' = [''Vera'', ''Nouaime'', ''test@gmail.com'']\<rparr>"
    using t v by simp
  then show ?thesis
    using r o by simp
qed

text \<open>
  C2. The function fails if and only if \<open>dataToUpdate\<close> has no key, whatever \<open>jsToSql\<close> is,
  and the failure is the \<open>BadRequestError\<close> with message \<open>No data\<close>: an empty object gives
  no result record, a non-empty one gives no error.
\<close>

theorem sqlForPartialUpdate_error_iff_empty:
  "(sqlForPartialUpdate dataToUpdate jsToSql = Inl (BadRequestError ''No data''))
      = (dataToUpdate = [])
   \<and> (\<exists>e. sqlForPartialUpdate dataToUpdate jsToSql = Inl e) = (dataToUpdate = [])
   \<and> (\<exists>r. sqlForPartialUpdate dataToUpdate jsToSql = Inr r) = (dataToUpdate \<noteq> [])"
  by (simp add: sqlForPartialUpdate_def keys_empty_iff)

theorem sqlForPartialUpdate_error_iff_empty_witness:
  "sqlForPartialUpdate ([] :: jsval obj)
       [''firstName'' \<mapsto> ''first_name'', ''lastName'' \<mapsto> ''last_name'',
        ''isAdmin'' \<mapsto> ''is_admin'']
     = Inl (BadRequestError ''No data'')
   \<and> sqlForPartialUpdate [(''firstName'', JStr ''Vera'')] Map.empty
     \<noteq> Inl (BadRequestError ''No data'')"
  using sqlForPartialUpdate_error_iff_empty
      [of "[] :: jsval obj"
          "[''firstName'' \<mapsto> ''first_name'', ''lastName'' \<mapsto> ''last_name'',
            ''isAdmin'' \<mapsto> ''is_admin'']"]
    sqlForPartialUpdate_error_iff_empty [of "[(''firstName'', JStr ''Vera'')]" Map.empty]
  by simp


lemma nth_cols_own:
  fixes dataToUpdate :: "'v obj"
  assumes "i < length dataToUpdate"
  shows "cols (keys dataToUpdate) jsToSql ! i
      = ''\"'' @ js_or (get_override jsToSql (fst (own_entries dataToUpdate ! i)))
                   (fst (own_entries dataToUpdate ! i))
          @ ''\"=$'' @ show_nat (i + 1)"
  using assms nth_cols [of i "keys dataToUpdate" jsToSql]
  by (simp add: length_keys) (simp add: keys_def length_own_entries)

lemma js_or_get_override:
  "js_or (get_override m k) k
     = (case m k of Some c \<Rightarrow> if c = [] then k else c | None \<Rightarrow> js_or (inherited k) k)"
  by (simp add: js_or_def get_override_def split: option.splits)

lemma inherited_not_text: "inherited k \<noteq> Text t"
  by (simp add: inherited_def)

lemma js_or_inherited:
  "js_or (inherited k) k = (case inherited k of Undefined \<Rightarrow> k | p \<Rightarrow> text_of p)"
  using inherited_not_text [of k] by (cases "inherited k") (simp_all add: js_or_def)

lemma column_of:
  "js_or (get_override m k) k
     = (case m k of Some c \<Rightarrow> if c = [] then k else c
        | None \<Rightarrow> (case inherited k of Undefined \<Rightarrow> k | p \<Rightarrow> text_of p))"
  by (simp only: js_or_get_override js_or_inherited)

lemma sqlForPartialUpdate_single:
  "sqlForPartialUpdate [(f, v)] jsToSql
     = Inr \<lparr>setCols = ''\"'' @ js_or (get_override jsToSql f) f @ ''\"=$1'', values' = [v]\<rparr>"
  by (simp add: sqlForPartialUpdate_def keys_def vals_def own_entries_single cols_def
      show_nat_1)

text \<open>
  C3, as stated, says that the override is applied exactly for the field names that are keys
  of \<open>jsToSql\<close>. It is not applied for a key whose override is the empty string: with
  \<open>jsToSql = {a: ""}\<close> the field \<open>a\<close> is a key of \<open>jsToSql\<close>, and the column emitted is
  \<open>"a"\<close>, not the override.
\<close>

theorem override_key_not_applied_counterexample:
  "''a'' \<in> dom [''a'' \<mapsto> '''']
   \<and> sqlForPartialUpdate [(''a'', JNum 1)] [''a'' \<mapsto> '''']
       = Inr \<lparr>setCols = ''\"a\"=$1'', values' = [JNum 1]\<rparr>
   \<and> cols (keys [(''a'', JNum 1)]) [''a'' \<mapsto> ''''] ! 0
       \<noteq> ''\"'' @ the ([''a'' \<mapsto> ''''] ''a'') @ ''\"=$'' @ show_nat 1"
  by (simp add: sqlForPartialUpdate_single js_or_get_override keys_def own_entries_single
      cols_def show_nat_1)

text \<open>
  C3, amended. The override is applied exactly for the field names whose override is a
  non-empty string. A field name that \<open>jsToSql\<close> maps to the empty string, or that is absent
  from \<open>jsToSql\<close> and is not the name of a property of \<^verbatim>\<open>Object.prototype\<close>, passes through
  unchanged as its own column name. The fields are taken in the order of \<^verbatim>\<open>Object.keys\<close>,
  and the text returned is the assignments separated by a comma and a space. For the
  override \<open>{numEmployees: "num_employees"}\<close> and the input \<open>{numEmployees: 5, logoUrl: "x"}\<close>
  the assignments are \<open>"num_employees"=$1, "logoUrl"=$2\<close> with the values \<open>[5, "x"]\<close>.
\<close>

theorem sqlForPartialUpdate_override_applied:
  fixes dataToUpdate :: "'v obj"
  assumes "i < length dataToUpdate"
  shows "(\<forall>c. jsToSql (fst (own_entries dataToUpdate ! i)) = Some c \<and> c \<noteq> [] \<longrightarrow>
            cols (keys dataToUpdate) jsToSql ! i = ''\"'' @ c @ ''\"=$'' @ show_nat (i + 1))
       \<and> (jsToSql (fst (own_entries dataToUpdate ! i)) = Some []
            \<or> (jsToSql (fst (own_entries dataToUpdate ! i)) = None
                \<and> inherited (fst (own_entries dataToUpdate ! i)) = Undefined) \<longrightarrow>
            cols (keys dataToUpdate) jsToSql ! i
              = ''\"'' @ fst (own_entries dataToUpdate ! i) @ ''\"=$'' @ show_nat (i + 1))
       \<and> (\<exists>r. sqlForPartialUpdate dataToUpdate jsToSql = Inr r
            \<and> setCols r = hd (cols (keys dataToUpdate) jsToSql)
                  @ concat (map ((@) '', '') (tl (cols (keys dataToUpdate) jsToSql))))
       \<and> sqlForPartialUpdate [(''numEmployees'', JNum 5), (''logoUrl'', JStr ''x'')]
            [''numEmployees'' \<mapsto> ''num_employees'']
          = Inr \<lparr>setCols = ''\"num_employees\"=$1, \"logoUrl\"=$2'',
                  values' = [JNum 5, JStr ''x'']\<rparr>"
proof -
  have ne: "dataToUpdate \<noteq> []"
    using assms by auto
  have res: "\<exists>r. sqlForPartialUpdate dataToUpdate jsToSql = Inr r
      \<and> setCols r = hd (cols (keys dataToUpdate) jsToSql)
            @ concat (map ((@) '', '') (tl (cols (keys dataToUpdate) jsToSql)))"
    using setCols_as_concat [OF ne, of jsToSql] by simp
  have example: "sqlForPartialUpdate [(''numEmployees'', JNum 5), (''logoUrl'', JStr ''x'')]
        [''numEmployees'' \<mapsto> ''num_employees'']
      = Inr \<lparr>setCols = ''\"num_employees\"=$1, \"logoUrl\"=$2'',
              values' = [JNum 5, JStr ''x'']\<rparr>"
    by code_simp
  have applied: "\<forall>c. jsToSql (fst (own_entries dataToUpdate ! i)) = Some c \<and> c \<noteq> [] \<longrightarrow>
      cols (keys dataToUpdate) jsToSql ! i = ''\"'' @ c @ ''\"=$'' @ show_nat (i + 1)"
    by (simp add: nth_cols_own [OF assms] js_or_get_override)
  have passed: "jsToSql (fst (own_entries dataToUpdate ! i)) = Some []
        \<or> (jsToSql (fst (own_entries dataToUpdate ! i)) = None
            \<and> inherited (fst (own_entries dataToUpdate ! i)) = Undefined) \<longrightarrow>
      cols (keys dataToUpdate) jsToSql ! i
        = ''\"'' @ fst (own_entries dataToUpdate ! i) @ ''\"=$'' @ show_nat (i + 1)"
    by (auto simp: nth_cols_own [OF assms] column_of)
  show ?thesis
    using applied passed res example by blast
qed

theorem sqlForPartialUpdate_override_applied_witness:
  "0 < length [(''numEmployees'', JNum 5), (''logoUrl'', JStr ''x'')]
   \<and> 1 < length [(''numEmployees'', JNum 5), (''logoUrl'', JStr ''x'')]
   \<and> cols (keys [(''numEmployees'', JNum 5), (''logoUrl'', JStr ''x'')])
        [''numEmployees'' \<mapsto> ''num_employees''] ! 0 = ''\"num_employees\"=$1''
   \<and> cols (keys [(''numEmployees'', JNum 5), (''logoUrl'', JStr ''x'')])
        [''numEmployees'' \<mapsto> ''num_employees''] ! 1 = ''\"logoUrl\"=$2''"
proof -
  let ?d = "[(''numEmployees'', JNum 5), (''logoUrl'', JStr ''x'')]"
  have o: "own_entries ?d = ?d"
    by (simp add: own_entries_plain letter_first_no_index is_digit_def)
  have u: "inherited ''logoUrl'' = Undefined"
    by (simp add: inherited_def object_prototype_functions_def)
  show ?thesis
    using sqlForPartialUpdate_override_applied
        [of 0 ?d "[''numEmployees'' \<mapsto> ''num_employees'']"]
      sqlForPartialUpdate_override_applied
        [of 1 ?d "[''numEmployees'' \<mapsto> ''num_employees'']"]
    by (simp add: o u show_nat.simps digit_char_def)
qed




section \<open>Properties of the models: validation\<close>

lemma join_contains: "k \<in> set xs \<Longrightarrow> \<exists>pre post. join sep xs = pre @ k @ post"
proof (induction sep xs rule: join.induct)
  case (1 sep)
  then show ?case by simp
next
  case (2 sep x)
  then have "join sep [x] = [] @ k @ []" by simp
  then show ?case by blast
next
  case (3 sep x y ys)
  show ?case
  proof (cases "k = x")
    case True
    then have "join sep (x # y # ys) = [] @ k @ (sep @ join sep (y # ys))" by simp
    then show ?thesis by blast
  next
    case False
    then have "k \<in> set (y # ys)" using 3 by simp
    then obtain pre post where "join sep (y # ys) = pre @ k @ post"
      using 3 by blast
    then have "join sep (x # y # ys) = (x @ sep @ pre) @ k @ post" by simp
    then show ?thesis by blast
  qed
qed

lemma db_query_error: "db_query E db stmt params = (db', Inl e) \<Longrightarrow> e = StorageError"
  by (auto simp: db_query_def Let_def split: if_splits statement.splits option.splits prod.splits)

lemma db_query_log:
  "queries (fst (db_query E db stmt params)) = queries db @ [(stmt, params)]"
  by (auto simp: db_query_def Let_def split: if_splits statement.splits option.splits prod.splits)

text \<open>
  C6. When a key of the filter object lies outside the allow-list (\<open>name\<close>, \<open>minEmployees\<close>,
  \<open>maxEmployees\<close> for companies; \<open>title\<close>, \<open>minSalary\<close>, \<open>hasEquity\<close> for jobs), \<open>findAll\<close> fails
  with the \<open>BadRequestError\<close> whose message is \<open>Invalid filter(s): \<close> followed by the rejected
  keys, in their order, joined by a comma and a space, so that every rejected key occurs in
  it; the store is returned as it was, no statement recorded. When every key is in the
  allow-list, no error with such a message is raised.
\<close>

theorem findAll_rejects_unknown_filters:
  "((\<exists>k \<in> set (keys searchFilters). k \<notin> {''name'', ''minEmployees'', ''maxEmployees''}) \<longrightarrow>
      Company_findAll E db searchFilters
        = (db, Inl (BadRequestError (''Invalid filter(s): '' @ join '', ''
             [k \<leftarrow> keys searchFilters. k \<notin> {''name'', ''minEmployees'', ''maxEmployees''}])))
      \<and> (\<forall>k \<in> set (keys searchFilters). k \<notin> {''name'', ''minEmployees'', ''maxEmployees''} \<longrightarrow>
            (\<exists>pre post. join '', ''
               [k \<leftarrow> keys searchFilters. k \<notin> {''name'', ''minEmployees'', ''maxEmployees''}]
                 = pre @ k @ post)))
   \<and> ((\<forall>k \<in> set (keys searchFilters). k \<in> {''name'', ''minEmployees'', ''maxEmployees''}) \<longrightarrow>
        (\<forall>m. snd (Company_findAll E db searchFilters)
               \<noteq> Inl (BadRequestError (''Invalid filter(s): '' @ m))))
   \<and> ((\<exists>k \<in> set (keys searchFilters). k \<notin> {''title'', ''minSalary'', ''hasEquity''}) \<longrightarrow>
      Job_findAll E db searchFilters
        = (db, Inl (BadRequestError (''Invalid filter(s): '' @ join '', ''
             [k \<leftarrow> keys searchFilters. k \<notin> {''title'', ''minSalary'', ''hasEquity''}])))
      \<and> (\<forall>k \<in> set (keys searchFilters). k \<notin> {''title'', ''minSalary'', ''hasEquity''} \<longrightarrow>
            (\<exists>pre post. join '', ''
               [k \<leftarrow> keys searchFilters. k \<notin> {''title'', ''minSalary'', ''hasEquity''}]
                 = pre @ k @ post)))
   \<and> ((\<forall>k \<in> set (keys searchFilters). k \<in> {''title'', ''minSalary'', ''hasEquity''}) \<longrightarrow>
        (\<forall>m. snd (Job_findAll E db searchFilters)
               \<noteq> Inl (BadRequestError (''Invalid filter(s): '' @ m))))"
proof -
  let ?C = "[k \<leftarrow> keys searchFilters. k \<notin> {''name'', ''minEmployees'', ''maxEmployees''}]"
  let ?J = "[k \<leftarrow> keys searchFilters. k \<notin> {''title'', ''minSalary'', ''hasEquity''}]"
  have c_bad: "Company_findAll E db searchFilters
      = (db, Inl (BadRequestError (''Invalid filter(s): '' @ join '', '' ?C)))"
    if "?C \<noteq> []"
    using that by (simp add: Company_findAll_def)
  have j_bad: "Job_findAll E db searchFilters
      = (db, Inl (BadRequestError (''Invalid filter(s): '' @ join '', '' ?J)))"
    if "?J \<noteq> []"
    using that by (simp add: Job_findAll_def)
  have c_named: "\<exists>pre post. join '', '' ?C = pre @ k @ post" if "k \<in> set ?C" for k
    using that by (rule join_contains)
  have j_named: "\<exists>pre post. join '', '' ?J = pre @ k @ post" if "k \<in> set ?J" for k
    using that by (rule join_contains)
  have c_good: "snd (Company_findAll E db searchFilters)
      \<noteq> Inl (BadRequestError (''Invalid filter(s): '' @ m))" if "?C = []" for m
  proof
    assume a: "snd (Company_findAll E db searchFilters)
      = Inl (BadRequestError (''Invalid filter(s): '' @ m))"
    obtain db' where "Company_findAll E db searchFilters
      = (db', Inl (BadRequestError (''Invalid filter(s): '' @ m)))"
      using a by (cases "Company_findAll E db searchFilters") auto
    then show False
      using that by (auto simp: Company_findAll_def Let_def split: if_splits dest: db_query_error)
  qed
  have j_good: "snd (Job_findAll E db searchFilters)
      \<noteq> Inl (BadRequestError (''Invalid filter(s): '' @ m))" if "?J = []" for m
  proof
    assume a: "snd (Job_findAll E db searchFilters)
      = Inl (BadRequestError (''Invalid filter(s): '' @ m))"
    obtain db' where "Job_findAll E db searchFilters
      = (db', Inl (BadRequestError (''Invalid filter(s): '' @ m)))"
      using a by (cases "Job_findAll E db searchFilters") auto
    then show False
      using that by (auto simp: Job_findAll_def Let_def split: if_splits dest: db_query_error)
  qed
  have c_ne: "(\<exists>k \<in> set (keys searchFilters). k \<notin> {''name'', ''minEmployees'', ''maxEmployees''})
      = (?C \<noteq> [])"
    by (auto simp: filter_empty_conv)
  have j_ne: "(\<exists>k \<in> set (keys searchFilters). k \<notin> {''title'', ''minSalary'', ''hasEquity''})
      = (?J \<noteq> [])"
    by (auto simp: filter_empty_conv)
  have c_all: "(\<forall>k \<in> set (keys searchFilters). k \<in> {''name'', ''minEmployees'', ''maxEmployees''})
      = (?C = [])"
    by (auto simp: filter_empty_conv)
  have j_all: "(\<forall>k \<in> set (keys searchFilters). k \<in> {''title'', ''minSalary'', ''hasEquity''})
      = (?J = [])"
    by (auto simp: filter_empty_conv)
  have c1: "(\<exists>k \<in> set (keys searchFilters). k \<notin> {''name'', ''minEmployees'', ''maxEmployees''}) \<longrightarrow>
      Company_findAll E db searchFilters
        = (db, Inl (BadRequestError (''Invalid filter(s): '' @ join '', '' ?C)))
      \<and> (\<forall>k \<in> set (keys searchFilters). k \<notin> {''name'', ''minEmployees'', ''maxEmployees''} \<longrightarrow>
            (\<exists>pre post. join '', '' ?C = pre @ k @ post))"
    using c_bad c_named unfolding c_ne by simp
  have j1: "(\<exists>k \<in> set (keys searchFilters). k \<notin> {''title'', ''minSalary'', ''hasEquity''}) \<longrightarrow>
      Job_findAll E db searchFilters
        = (db, Inl (BadRequestError (''Invalid filter(s): '' @ join '', '' ?J)))
      \<and> (\<forall>k \<in> set (keys searchFilters). k \<notin> {''title'', ''minSalary'', ''hasEquity''} \<longrightarrow>
            (\<exists>pre post. join '', '' ?J = pre @ k @ post))"
    using j_bad j_named unfolding j_ne by simp
  have c2: "(\<forall>k \<in> set (keys searchFilters). k \<in> {''name'', ''minEmployees'', ''maxEmployees''}) \<longrightarrow>
        (\<forall>m. snd (Company_findAll E db searchFilters)
               \<noteq> Inl (BadRequestError (''Invalid filter(s): '' @ m)))"
    using c_good unfolding c_all by blast
  have j2: "(\<forall>k \<in> set (keys searchFilters). k \<in> {''title'', ''minSalary'', ''hasEquity''}) \<longrightarrow>
        (\<forall>m. snd (Job_findAll E db searchFilters)
               \<noteq> Inl (BadRequestError (''Invalid filter(s): '' @ m)))"
    using j_good unfolding j_all by blast
  show ?thesis
    using c1 c2 j1 j2 by blast
qed

theorem findAll_rejects_unknown_filters_witness:
  "Company_findAll sample_engine sample_db [(''foo'', JNum 1)]
     = (sample_db, Inl (BadRequestError ''Invalid filter(s): foo''))
   \<and> Job_findAll sample_engine sample_db [(''foo'', JNum 1)]
     = (sample_db, Inl (BadRequestError ''Invalid filter(s): foo''))
   \<and> snd (Company_findAll sample_engine sample_db [(''name'', JStr ''C'')])
     \<noteq> Inl (BadRequestError ''Invalid filter(s): name'')
   \<and> snd (Job_findAll sample_engine sample_db [(''title'', JStr ''test'')])
     \<noteq> Inl (BadRequestError ''Invalid filter(s): title'')"
proof -
  have bad: "Company_findAll sample_engine sample_db [(''foo'', JNum 1)]
        = (sample_db, Inl (BadRequestError ''Invalid filter(s): foo''))
      \<and> Job_findAll sample_engine sample_db [(''foo'', JNum 1)]
        = (sample_db, Inl (BadRequestError ''Invalid filter(s): foo''))"
    using findAll_rejects_unknown_filters [of "[(''foo'', JNum 1)]" sample_engine sample_db]
    by (simp add: keys_def own_entries_single)
  have c: "\<forall>m. snd (Company_findAll sample_engine sample_db [(''name'', JStr ''C'')])
      \<noteq> Inl (BadRequestError (''Invalid filter(s): '' @ m))"
    using findAll_rejects_unknown_filters [of "[(''name'', JStr ''C'')]" sample_engine sample_db]
    by (simp add: keys_def own_entries_single)
  have j: "\<forall>m. snd (Job_findAll sample_engine sample_db [(''title'', JStr ''test'')])
      \<noteq> Inl (BadRequestError (''Invalid filter(s): '' @ m))"
    using findAll_rejects_unknown_filters [of "[(''title'', JStr ''test'')]" sample_engine sample_db]
    by (simp add: keys_def own_entries_single)
  show ?thesis
    using bad spec [OF c, of "''name''"] spec [OF j, of "''title''"] by simp
qed



lemma Company_findAll_js_gt:
  assumes "js_gt (get_prop searchFilters ''minEmployees'') (get_prop searchFilters ''maxEmployees'')"
  shows "Company_findAll E db searchFilters
     = (db, Inl (BadRequestError
          (if [k \<leftarrow> keys searchFilters. k \<notin> {''name'', ''minEmployees'', ''maxEmployees''}] = []
           then ''minEmployees cannot be greater than maxEmployees''
           else ''Invalid filter(s): '' @ join '', ''
             [k \<leftarrow> keys searchFilters. k \<notin> {''name'', ''minEmployees'', ''maxEmployees''}])))"
  using assms by (simp add: Company_findAll_def)

lemma bounds_keys:
  "keys [(''minEmployees'', a), (''maxEmployees'', b)] = [''minEmployees'', ''maxEmployees'']"
  by (simp add: keys_plain letter_first_no_index is_digit_def)

lemma bounds_props:
  "get_prop [(''minEmployees'', a), (''maxEmployees'', b)] ''name'' = JUndefined"
  "get_prop [(''minEmployees'', a), (''maxEmployees'', b)] ''minEmployees'' = a"
  "get_prop [(''minEmployees'', a), (''maxEmployees'', b)] ''maxEmployees'' = b"
  by (simp_all add: get_prop_def)

lemma js_gt_10_9: "\<not> js_gt (JStr ''10'') (JStr ''9'')" "js_gt (JStr ''9'') (JStr ''10'')"
  by code_simp+

text \<open>
  C7. The doc comment of \<open>Company.findAll\<close> promises a \<open>BadRequestError\<close> if
  \<open>minEmployees > maxEmployees\<close>. The check is JavaScript's \<open>>\<close> on the two filter values
  as they arrive, and two strings are compared as strings, character by character. For the
  filters \<open>{minEmployees: "10", maxEmployees: "9"}\<close>, whose lower bound is the greater
  number, the check does not fire: the call raises no \<open>BadRequestError\<close>, sends the
  statement with both conditions and returns what the store answers. For
  \<open>{minEmployees: "9", maxEmployees: "10"}\<close>, whose bounds are in order, the call is refused
  with the message of the bounds check, and no statement is sent.
\<close>

theorem Company_findAll_string_bounds_compared_as_strings:
  "Company_findAll E db [(''minEmployees'', JStr ''10''), (''maxEmployees'', JStr ''9'')]
     = db_query E db
         (Select ''companies''
            '' WHERE num_employees >= $1 AND num_employees <= $2 ORDER BY name'')
         [JStr ''10'', JStr ''9'']
   \<and> (\<forall>m. snd (Company_findAll E db
                  [(''minEmployees'', JStr ''10''), (''maxEmployees'', JStr ''9'')])
            \<noteq> Inl (BadRequestError m))
   \<and> queries (fst (Company_findAll E db
                  [(''minEmployees'', JStr ''10''), (''maxEmployees'', JStr ''9'')]))
       = queries db
           @ [(Select ''companies''
                 '' WHERE num_employees >= $1 AND num_employees <= $2 ORDER BY name'',
               [JStr ''10'', JStr ''9''])]
   \<and> Company_findAll E db [(''minEmployees'', JStr ''9''), (''maxEmployees'', JStr ''10'')]
     = (db, Inl (BadRequestError ''minEmployees cannot be greater than maxEmployees''))"
proof -
  let ?stmt = "Select ''companies''
      '' WHERE num_employees >= $1 AND num_employees <= $2 ORDER BY name''"
  have sent: "Company_findAll E db [(''minEmployees'', JStr ''10''), (''maxEmployees'', JStr ''9'')]
      = db_query E db ?stmt [JStr ''10'', JStr ''9'']"
    by (simp add: Company_findAll_def bounds_keys bounds_props js_gt_10_9 push_filter_def
        where_clause_def show_nat.simps digit_char_def)
  have no_bad: "snd (db_query E db ?stmt [JStr ''10'', JStr ''9'']) \<noteq> Inl (BadRequestError m)"
    for m
  proof
    assume a: "snd (db_query E db ?stmt [JStr ''10'', JStr ''9'']) = Inl (BadRequestError m)"
    obtain db' where "db_query E db ?stmt [JStr ''10'', JStr ''9'']
        = (db', Inl (BadRequestError m))"
      using a by (cases "db_query E db ?stmt [JStr ''10'', JStr ''9'']") auto
    then show False
      by (auto dest: db_query_error)
  qed
  have refused: "Company_findAll E db [(''minEmployees'', JStr ''9''), (''maxEmployees'', JStr ''10'')]
      = (db, Inl (BadRequestError ''minEmployees cannot be greater than maxEmployees''))"
    using Company_findAll_js_gt
      [of "[(''minEmployees'', JStr ''9''), (''maxEmployees'', JStr ''10'')]" E db]
    by (simp add: bounds_keys bounds_props js_gt_10_9)
  show ?thesis
    unfolding sent using no_bad refused by (simp add: db_query_log)
qed

text \<open>
  C9. An update with an empty data object fails with the \<open>BadRequestError\<close> of
  \<open>sqlForPartialUpdate\<close>, for every key and every store: the store is returned as it was, no
  statement recorded, so whether a record with that key exists is never looked at.
\<close>

theorem update_empty_data_rejected:
  "Company_update E db handle [] = (db, Inl (BadRequestError ''No data''))
   \<and> Job_update E db id' [] = (db, Inl (BadRequestError ''No data''))"
  by (simp add: Company_update_def Job_update_def sqlForPartialUpdate_def keys_Nil)

theorem update_empty_data_rejected_witness:
  "Company_update sample_engine sample_db (JStr ''nope'') []
     = (sample_db, Inl (BadRequestError ''No data''))
   \<and> Job_update sample_engine sample_db (JNum 0) []
     = (sample_db, Inl (BadRequestError ''No data''))"
  using update_empty_data_rejected [of sample_engine sample_db "JStr ''nope''" "JNum 0"]
  by simp

section \<open>Properties of the models: reading a company\<close>

lemma Company_get_not_found:
  assumes "accepts E SelectCompanyJobs [handle] db"
    and "filter (\<lambda>c. key_matches (cast E ''handle'' handle) c ''handle'') (companies db) = []"
  shows "snd (Company_get E db handle) = Inl (NotFoundError (''No company: '' @ to_string handle))"
  using assms by (simp add: Company_get_def db_query_def run_company_jobs_def Let_def)

lemma left_join_not_empty: "left_join js c \<noteq> []"
  by (simp add: left_join_def Let_def)

lemma Company_get_rows:
  assumes "accepts E SelectCompanyJobs [handle] db"
    and "filter (\<lambda>c. key_matches (cast E ''handle'' handle) c ''handle'') (companies db) \<noteq> []"
  shows "snd (Company_get E db handle)
     = Inr (concat (map (left_join (jobs db))
          (filter (\<lambda>c. key_matches (cast E ''handle'' handle) c ''handle'') (companies db))))"
proof -
  obtain c cs where f: "filter (\<lambda>c. key_matches (cast E ''handle'' handle) c ''handle'') (companies db) = c # cs"
    using assms(2) by (cases "filter (\<lambda>c. key_matches (cast E ''handle'' handle) c ''handle'') (companies db)") auto
  show ?thesis
    using assms(1) left_join_not_empty [of "jobs db" c]
    by (simp add: Company_get_def db_query_def run_company_jobs_def Let_def f)
qed

text \<open>
  C5. \<open>Company.get\<close> fails with \<open>NotFoundError\<close> when no company has the handle. When one
  has, it resolves to the rows of the join themselves: for the company \<open>c1\<close> of the sample
  store, which has two jobs, to two rows, each repeating the company's columns beside one
  job's \<open>id\<close>, \<open>title\<close>, \<open>salary\<close> and \<open>equity\<close>, and none holding a \<open>jobs\<close> property. The
  method's own comment promises one record
  \<^verbatim>\<open>{ handle, name, description, numEmployees, logoUrl, jobs }\<close>.
\<close>

theorem Company_get_returns_join_rows:
  "snd (Company_get sample_engine sample_db (JStr ''c1''))
     = Inr [[(''handle'', SqlText ''c1''), (''name'', SqlText ''C1''),
             (''description'', SqlText ''Desc1''), (''numEmployees'', SqlNum 1),
             (''logoUrl'', SqlText ''http://c1.img''), (''id'', SqlNum 1),
             (''title'', SqlText ''test''), (''salary'', SqlNum 75000),
             (''equity'', SqlNum (87 / 100))],
            [(''handle'', SqlText ''c1''), (''name'', SqlText ''C1''),
             (''description'', SqlText ''Desc1''), (''numEmployees'', SqlNum 1),
             (''logoUrl'', SqlText ''http://c1.img''), (''id'', SqlNum 4),
             (''title'', SqlText ''test4''), (''salary'', SqlNull),
             (''equity'', SqlNull)]]
   \<and> snd (Company_get sample_engine sample_db (JStr ''nope''))
     = Inl (NotFoundError ''No company: nope'')"
  by (simp add: Company_get_def db_query_def run_company_jobs_def left_join_def join_row_def
      project_def select_list_def row_get_def key_matches_def sample_engine_def sample_db_def
      Let_def)

section \<open>The store reads back the SET clause that the code builds\<close>

lemma digit_char_is_digit: "d < 10 \<Longrightarrow> is_digit (digit_char d)"
proof -
  assume "d < 10"
  then have "d \<in> {0, 1, 2, 3, 4, 5, 6, 7, 8, 9}" by auto
  then show ?thesis
    by (auto simp: is_digit_def digit_char_def)
qed

lemma digit_val_digit_char: "d < 10 \<Longrightarrow> digit_val (digit_char d) = d"
proof -
  assume "d < 10"
  then have "d \<in> {0, 1, 2, 3, 4, 5, 6, 7, 8, 9}" by auto
  then show ?thesis
    by (auto simp: digit_val_def digit_char_def)
qed

lemma show_nat_digits: "list_all is_digit (show_nat n)"
proof (induction n rule: show_nat.induct)
  case (1 n)
  show ?case
  proof (cases "n < 10")
    case True
    then show ?thesis
      by (subst show_nat.simps) (simp add: digit_char_is_digit)
  next
    case False
    then show ?thesis
      using 1 by (subst show_nat.simps) (simp add: digit_char_is_digit)
  qed
qed

lemma show_nat_not_empty: "show_nat n \<noteq> []"
  by (subst show_nat.simps) simp

lemma read_nat_snoc: "read_nat (ds @ [c]) = 10 * read_nat ds + digit_val c"
  by (simp add: read_nat_def)

lemma read_show_nat: "read_nat (show_nat n) = n"
proof (induction n rule: show_nat.induct)
  case (1 n)
  show ?case
  proof (cases "n < 10")
    case True
    then show ?thesis
      by (subst show_nat.simps) (simp add: read_nat_def digit_val_digit_char)
  next
    case False
    then have "read_nat (show_nat (n div 10)) = n div 10"
      using 1 by simp
    then show ?thesis
      using False by (subst show_nat.simps) (simp add: read_nat_snoc digit_val_digit_char)
  qed
qed

lemma read_placeholder_show: "read_placeholder (CHR ''$'' # show_nat n) = Some n"
  by (simp add: read_placeholder_def show_nat_not_empty show_nat_digits read_show_nat)

lemma takeWhile_digits:
  "rest = [] \<or> \<not> is_digit (hd rest) \<Longrightarrow> takeWhile is_digit (show_nat n @ rest) = show_nat n"
  using show_nat_digits [of n]
  by (cases rest) (auto simp: list_all_iff)

lemma dropWhile_digits:
  "rest = [] \<or> \<not> is_digit (hd rest) \<Longrightarrow> dropWhile is_digit (show_nat n @ rest) = rest"
  using show_nat_digits [of n]
  by (cases rest) (auto simp: list_all_iff)

lemma read_ident_plain:
  "CHR 0x22 \<notin> set name \<Longrightarrow> rest = [] \<or> hd rest \<noteq> CHR 0x22
     \<Longrightarrow> read_ident acc (name @ CHR 0x22 # rest) = Some (acc @ name, rest)"
proof (induction name arbitrary: acc)
  case Nil
  then show ?case by (cases rest) auto
next
  case (Cons c name)
  then have "read_ident (acc @ [c]) (name @ CHR 0x22 # rest) = Some ((acc @ [c]) @ name, rest)"
    by simp
  moreover have "c \<noteq> CHR 0x22" using Cons.prems by auto
  ultimately show ?case
    by (cases "name @ CHR 0x22 # rest") auto
qed

text \<open>One assignment as the code prints it.\<close>

lemma read_set_one:
  assumes "name \<noteq> []" and "CHR 0x22 \<notin> set name"
  shows "read_set (CHR 0x22 # name @ CHR 0x22 # CHR ''='' # CHR ''$'' # show_nat n) = Some [(name, n)]"
proof -
  have i: "read_ident [] (name @ CHR 0x22 # CHR ''='' # CHR ''$'' # show_nat n)
      = Some (name, CHR ''='' # CHR ''$'' # show_nat n)"
    using read_ident_plain [of name "CHR ''='' # CHR ''$'' # show_nat n" "[]"] assms by simp
  have t: "takeWhile is_digit (show_nat n) = show_nat n"
    using takeWhile_digits [of "[]" n] by simp
  have d: "dropWhile is_digit (show_nat n) = []"
    using dropWhile_digits [of "[]" n] by simp
  show ?thesis
    by (subst read_set.simps) (simp add: i t d assms read_placeholder_show)
qed

lemma read_set_more:
  assumes "name \<noteq> []" and "CHR 0x22 \<notin> set name"
  shows "read_set (CHR 0x22 # name @ CHR 0x22 # CHR ''='' # CHR ''$'' # show_nat n
            @ CHR '','' # CHR '' '' # tl_text)
     = map_option ((#) (name, n)) (read_set tl_text)"
proof -
  let ?rest = "CHR '','' # CHR '' '' # tl_text"
  have i: "read_ident [] (name @ CHR 0x22 # CHR ''='' # CHR ''$'' # show_nat n @ ?rest)
      = Some (name, CHR ''='' # CHR ''$'' # show_nat n @ ?rest)"
    using read_ident_plain [of name "CHR ''='' # CHR ''$'' # show_nat n @ ?rest" "[]"] assms
    by simp
  have nd: "?rest = [] \<or> \<not> is_digit (hd ?rest)"
    by (simp add: is_digit_def)
  have t: "takeWhile is_digit (show_nat n @ ?rest) = show_nat n"
    using takeWhile_digits [OF nd] .
  have d: "dropWhile is_digit (show_nat n @ ?rest) = ?rest"
    using dropWhile_digits [OF nd] .
  show ?thesis
    by (subst read_set.simps) (simp add: i t d assms read_placeholder_show)
qed

lemma read_set_join:
  assumes "asg \<noteq> []" and "\<forall>c \<in> fst ` set asg. c \<noteq> [] \<and> CHR 0x22 \<notin> set c"
  shows "read_set (join '', '' (map (\<lambda>(c, n). ''\"'' @ c @ ''\"=$'' @ show_nat n) asg)) = Some asg"
  using assms
proof (induction asg rule: list_nonempty_induct)
  case (single x)
  then show ?case
    using read_set_one [of "fst x" "snd x"] by (cases x) simp
next
  case (cons x xs)
  obtain y ys where xs: "xs = y # ys"
    using cons.hyps by (cases xs) auto
  have "read_set (join '', '' (map (\<lambda>(c, n). ''\"'' @ c @ ''\"=$'' @ show_nat n) xs)) = Some xs"
    using cons by simp
  then show ?case
    using cons.prems read_set_more [of "fst x" "snd x"
        "join '', '' (map (\<lambda>(c, n). ''\"'' @ c @ ''\"=$'' @ show_nat n) xs)"]
    by (cases x) (simp add: xs)
qed

lemma cols_as_assignments:
  "cols ks m = map (\<lambda>(c, n). ''\"'' @ c @ ''\"=$'' @ show_nat n)
                 (zip (map (\<lambda>k. js_or (get_override m k) k) ks) [1..<Suc (length ks)])"
proof -
  have "zip (map (\<lambda>k. js_or (get_override m k) k) ks) [1..<Suc (length ks)]
      = map (\<lambda>(k, i). (js_or (get_override m k) k, i + 1)) (zip ks [0..<length ks])"
    by (rule nth_equalityI) (auto simp del: upt_Suc)
  then show ?thesis
    by (simp add: cols_def case_prod_unfold comp_def del: upt_Suc)
qed

lemma read_setCols:
  assumes "ks \<noteq> []"
    and "\<forall>k \<in> set ks. js_or (get_override m k) k \<noteq> [] \<and> CHR 0x22 \<notin> set (js_or (get_override m k) k)"
  shows "read_set (join '', '' (cols ks m))
     = Some (zip (map (\<lambda>k. js_or (get_override m k) k) ks) [1..<Suc (length ks)])"
proof -
  define ns where "ns = [1..<Suc (length ks)]"
  define asg where "asg = zip (map (\<lambda>k. js_or (get_override m k) k) ks) ns"
  have len: "length ns = length ks"
    by (simp add: ns_def del: upt_Suc)
  have ne: "asg \<noteq> []"
    using assms(1) len by (cases ks; cases ns) (auto simp: asg_def)
  have ok: "\<forall>c \<in> fst ` set asg. c \<noteq> [] \<and> CHR 0x22 \<notin> set c"
  proof
    fix c
    assume "c \<in> fst ` set asg"
    then obtain n where "(c, n) \<in> set asg" by force
    then have "c \<in> set (map (\<lambda>k. js_or (get_override m k) k) ks)"
      unfolding asg_def by (rule set_zip_leftD)
    then show "c \<noteq> [] \<and> CHR 0x22 \<notin> set c"
      using assms(2) by auto
  qed
  have "cols ks m = map (\<lambda>(c, n). ''\"'' @ c @ ''\"=$'' @ show_nat n) asg"
    unfolding asg_def ns_def by (rule cols_as_assignments)
  then show ?thesis
    using read_set_join [OF ne ok] unfolding asg_def ns_def by simp
qed

section \<open>Properties of the models: partial update\<close>

lemma row_get_row_set_other: "c' \<noteq> c \<Longrightarrow> row_get (row_set c v r) c' = row_get r c'"
  by (induction r) (auto simp: row_get_def row_set_def)

lemma row_get_assign_other:
  "c \<notin> fst ` set asg \<Longrightarrow> row_get (assign E params asg r) c = row_get r c"
proof (induction asg arbitrary: r)
  case Nil
  then show ?case by (simp add: assign_def)
next
  case (Cons a asg)
  obtain c' n where a: "a = (c', n)" by (cases a)
  have "row_get (assign E params asg (row_set c' (cast E c' (params ! (n - 1))) r)) c
      = row_get (row_set c' (cast E c' (params ! (n - 1))) r) c"
    using Cons by simp
  then show ?case
    using Cons.prems a by (simp add: assign_def row_get_row_set_other)
qed

lemma run_update_frame:
  assumes "run_update E db t set_text key key_text params = Some (stored, rows)"
    and "read_set set_text = Some asg"
    and "c \<notin> fst ` set asg"
  shows "map (\<lambda>r. row_get r c) stored = map (\<lambda>r. row_get r c) (table_rows db t)"
  using assms
  by (auto simp: run_update_def Let_def row_get_assign_other split: option.splits if_splits)

lemma db_query_update_frame:
  assumes "read_set set_text = Some asg" and "c \<notin> fst ` set asg"
  shows "map (\<lambda>r. row_get r c) (table_rows (fst (db_query E db (Update t set_text key key_text) params)) t)
     = map (\<lambda>r. row_get r c) (table_rows db t)"
proof (cases "accepts E (Update t set_text key key_text) params db")
  case False
  then show ?thesis
    by (simp add: db_query_def Let_def table_rows_def)
next
  case True
  show ?thesis
  proof (cases "run_update E db t set_text key key_text params")
    case None
    then show ?thesis
      using True by (simp add: db_query_def Let_def table_rows_def)
  next
    case (Some p)
    obtain stored rows where p: "p = (stored, rows)" by (cases p)
    have "map (\<lambda>r. row_get r c) stored = map (\<lambda>r. row_get r c) (table_rows db t)"
      using run_update_frame [OF Some [unfolded p] assms] .
    then show ?thesis
      using True Some p by (simp add: db_query_def Let_def table_rows_def)
  qed
qed

lemma db_query_update_other_table:
  "t = ''companies'' \<Longrightarrow> jobs (fst (db_query E db (Update t set_text key key_text) params)) = jobs db"
  "t = ''jobs'' \<Longrightarrow> companies (fst (db_query E db (Update t set_text key key_text) params)) = companies db"
  by (auto simp: db_query_def Let_def split: option.splits)

lemma table_rows_companies: "table_rows db ''companies'' = companies db"
  by (simp add: table_rows_def)

lemma table_rows_jobs: "table_rows db ''jobs'' = jobs db"
  by (simp add: table_rows_def)

lemma Company_update_store:
  "fst (Company_update E db handle data)
     = (if data = [] then db
        else fst (db_query E db
               (Update ''companies''
                  (join '', '' (cols (keys data)
                     [''numEmployees'' \<mapsto> ''num_employees'', ''logoUrl'' \<mapsto> ''logo_url'']))
                  ''handle'' (''$'' @ show_nat (length data + 1)))
               (vals data @ [handle])))"
  by (auto simp: Company_update_def sqlForPartialUpdate_def keys_empty_iff length_vals Let_def
      split: prod.splits sum.splits list.splits)

lemma Job_update_store:
  "fst (Job_update E db id' data)
     = (if data = [] then db
        else fst (db_query E db
               (Update ''jobs''
                  (join '', '' (cols (keys data) [''companyHandle'' \<mapsto> ''company_handle'']))
                  ''id'' (''$'' @ show_nat (length data + 1)))
               (vals data @ [id'])))"
  by (auto simp: Job_update_def sqlForPartialUpdate_def keys_empty_iff length_vals Let_def
      split: prod.splits sum.splits list.splits)

lemma update_frame:
  assumes "\<forall>k \<in> set (keys data). js_or (get_override m k) k \<in> set allowed"
    and "\<forall>c \<in> set allowed. c \<noteq> [] \<and> CHR 0x22 \<notin> set c"
    and "c \<notin> (\<lambda>k. js_or (get_override m k) k) ` set (keys data)"
    and "data \<noteq> []"
  shows "map (\<lambda>r. row_get r c)
           (table_rows (fst (db_query E db (Update t (join '', '' (cols (keys data) m)) key key_text)
              params)) t)
     = map (\<lambda>r. row_get r c) (table_rows db t)"
proof -
  define asg where "asg = zip (map (\<lambda>k. js_or (get_override m k) k) (keys data)) [1..<Suc (length (keys data))]"
  have ne: "keys data \<noteq> []"
    using assms(4) by (simp add: keys_empty_iff)
  have ok: "\<forall>k \<in> set (keys data). js_or (get_override m k) k \<noteq> [] \<and> CHR 0x22 \<notin> set (js_or (get_override m k) k)"
    using assms(1,2) by blast
  have rd: "read_set (join '', '' (cols (keys data) m)) = Some asg"
    unfolding asg_def using read_setCols [OF ne ok] .
  have "c \<notin> fst ` set asg"
  proof
    assume "c \<in> fst ` set asg"
    then obtain n where "(c, n) \<in> set asg" by force
    then have "c \<in> set (map (\<lambda>k. js_or (get_override m k) k) (keys data))"
      unfolding asg_def by (rule set_zip_leftD)
    then show False using assms(3) by simp
  qed
  then show ?thesis
    using db_query_update_frame [OF rd] by simp
qed


text \<open>
  C4, as stated, says that the stored handle, respectively the stored id, is the same after
  every update that \<open>Company.update\<close>, respectively \<open>Job.update\<close>, accepts. Both accept data
  that names the key column. On a store whose only company \<open>c3\<close> has no job, updating \<open>c3\<close>
  with \<open>{handle: "c9"}\<close> succeeds and the stored handle becomes \<open>c9\<close>. On the sample store,
  updating the job 1 with \<open>{id: 9}\<close> succeeds and the stored id becomes 9. Both stores satisfy
  the constraints of the schema before and after.
\<close>

theorem update_changes_key_counterexample:
  "map (\<lambda>r. row_get r ''handle'') (companies lone_db) = [SqlText ''c3'']
   \<and> snd (Company_update sample_engine lone_db (JStr ''c3'') [(''handle'', JStr ''c9'')])
      = Inr [(''handle'', SqlText ''c9''), (''name'', SqlText ''C3''),
             (''description'', SqlText ''Desc3''), (''numEmployees'', SqlNum 3),
             (''logoUrl'', SqlText ''http://c3.img'')]
   \<and> map (\<lambda>r. row_get r ''handle'')
        (companies (fst (Company_update sample_engine lone_db (JStr ''c3'')
           [(''handle'', JStr ''c9'')])))
      = [SqlText ''c9'']
   \<and> map (\<lambda>r. row_get r ''id'') (jobs sample_db) = [SqlNum 1, SqlNum 2, SqlNum 3, SqlNum 4]
   \<and> snd (Job_update sample_engine sample_db (JNum 1) [(''id'', JNum 9)])
      = Inr [(''id'', SqlNum 9), (''title'', SqlText ''test''), (''salary'', SqlNum 75000),
             (''equity'', SqlNum (87 / 100)), (''companyHandle'', SqlText ''c1'')]
   \<and> map (\<lambda>r. row_get r ''id'')
        (jobs (fst (Job_update sample_engine sample_db (JNum 1) [(''id'', JNum 9)])))
      = [SqlNum 9, SqlNum 2, SqlNum 3, SqlNum 4]
   \<and> consistent (companies lone_db) (jobs lone_db)
   \<and> consistent (companies sample_db) (jobs sample_db)"
proof -
  have c0: "map (\<lambda>r. row_get r ''handle'') (companies lone_db) = [SqlText ''c3'']"
    by code_simp
  have c1: "snd (Company_update sample_engine lone_db (JStr ''c3'') [(''handle'', JStr ''c9'')])
      = Inr [(''handle'', SqlText ''c9''), (''name'', SqlText ''C3''),
             (''description'', SqlText ''Desc3''), (''numEmployees'', SqlNum 3),
             (''logoUrl'', SqlText ''http://c3.img'')]"
    by code_simp
  have c2: "map (\<lambda>r. row_get r ''handle'')
        (companies (fst (Company_update sample_engine lone_db (JStr ''c3'')
           [(''handle'', JStr ''c9'')])))
      = [SqlText ''c9'']"
    by code_simp
  have j0: "map (\<lambda>r. row_get r ''id'') (jobs sample_db) = [SqlNum 1, SqlNum 2, SqlNum 3, SqlNum 4]"
    by code_simp
  have j1: "snd (Job_update sample_engine sample_db (JNum 1) [(''id'', JNum 9)])
      = Inr [(''id'', SqlNum 9), (''title'', SqlText ''test''), (''salary'', SqlNum 75000),
             (''equity'', SqlNum (87 / 100)), (''companyHandle'', SqlText ''c1'')]"
    by code_simp
  have j2: "map (\<lambda>r. row_get r ''id'')
        (jobs (fst (Job_update sample_engine sample_db (JNum 1) [(''id'', JNum 9)])))
      = [SqlNum 9, SqlNum 2, SqlNum 3, SqlNum 4]"
    by code_simp
  have k: "consistent (companies lone_db) (jobs lone_db)"
    "consistent (companies sample_db) (jobs sample_db)"
    by code_simp+
  show ?thesis
    using c0 c1 c2 j0 j1 j2 k by simp
qed

text \<open>
  C4, amended. When every field of the data resolves to a column of the table other than
  its key (\<open>name\<close>, \<open>description\<close>, \<open>num_employees\<close>, \<open>logo_url\<close> for a company; \<open>title\<close>,
  \<open>salary\<close>, \<open>equity\<close>, \<open>company_handle\<close> for a job), an update leaves the stored key of
  every record as it was (\<open>handle\<close>, respectively \<open>id\<close>), leaves every column that the data
  does not name as it was, and leaves the other table as it was, whether it succeeds or not.
\<close>

theorem update_keeps_key_and_unlisted_columns:
  "((\<forall>k \<in> set (keys data).
        js_or (get_override [''numEmployees'' \<mapsto> ''num_employees'', ''logoUrl'' \<mapsto> ''logo_url''] k) k
          \<in> {''name'', ''description'', ''num_employees'', ''logo_url''}) \<longrightarrow>
      map (\<lambda>r. row_get r ''handle'') (companies (fst (Company_update E db handle data)))
        = map (\<lambda>r. row_get r ''handle'') (companies db)
      \<and> (\<forall>c. c \<notin> (\<lambda>k. js_or (get_override [''numEmployees'' \<mapsto> ''num_employees'',
                                    ''logoUrl'' \<mapsto> ''logo_url''] k) k) ` set (keys data) \<longrightarrow>
            map (\<lambda>r. row_get r c) (companies (fst (Company_update E db handle data)))
              = map (\<lambda>r. row_get r c) (companies db))
      \<and> jobs (fst (Company_update E db handle data)) = jobs db)
   \<and> ((\<forall>k \<in> set (keys data).
        js_or (get_override [''companyHandle'' \<mapsto> ''company_handle''] k) k
          \<in> {''title'', ''salary'', ''equity'', ''company_handle''}) \<longrightarrow>
      map (\<lambda>r. row_get r ''id'') (jobs (fst (Job_update E db id' data)))
        = map (\<lambda>r. row_get r ''id'') (jobs db)
      \<and> (\<forall>c. c \<notin> (\<lambda>k. js_or (get_override [''companyHandle'' \<mapsto> ''company_handle''] k) k) ` set (keys data) \<longrightarrow>
            map (\<lambda>r. row_get r c) (jobs (fst (Job_update E db id' data)))
              = map (\<lambda>r. row_get r c) (jobs db))
      \<and> companies (fst (Job_update E db id' data)) = companies db)"
proof -
  let ?cm = "[''numEmployees'' \<mapsto> ''num_employees'', ''logoUrl'' \<mapsto> ''logo_url'']"
  let ?jm = "[''companyHandle'' \<mapsto> ''company_handle'']"
  let ?ca = "[''name'', ''description'', ''num_employees'', ''logo_url'']"
  let ?ja = "[''title'', ''salary'', ''equity'', ''company_handle'']"
  have plain_c: "\<forall>c \<in> set ?ca. c \<noteq> [] \<and> CHR 0x22 \<notin> set c"
    by simp
  have plain_j: "\<forall>c \<in> set ?ja. c \<noteq> [] \<and> CHR 0x22 \<notin> set c"
    by simp
  have c_col: "map (\<lambda>r. row_get r c) (companies (fst (Company_update E db handle data)))
      = map (\<lambda>r. row_get r c) (companies db)"
    if ok: "\<forall>k \<in> set (keys data). js_or (get_override ?cm k) k \<in> set ?ca"
      and c: "c \<notin> (\<lambda>k. js_or (get_override ?cm k) k) ` set (keys data)" for c
  proof (cases "data = []")
    case True
    then show ?thesis by (simp add: Company_update_store)
  next
    case False
    have st: "fst (Company_update E db handle data)
        = fst (db_query E db
            (Update ''companies'' (join '', '' (cols (keys data) ?cm)) ''handle''
               (''$'' @ show_nat (length data + 1)))
            (vals data @ [handle]))"
      using False by (simp only: Company_update_store if_False)
    show ?thesis
      using update_frame [OF ok plain_c c False, of E db "''companies''" "''handle''"
          "''$'' @ show_nat (length data + 1)" "vals data @ [handle]"]
      unfolding st table_rows_companies .
  qed
  have j_col: "map (\<lambda>r. row_get r c) (jobs (fst (Job_update E db id' data)))
      = map (\<lambda>r. row_get r c) (jobs db)"
    if ok: "\<forall>k \<in> set (keys data). js_or (get_override ?jm k) k \<in> set ?ja"
      and c: "c \<notin> (\<lambda>k. js_or (get_override ?jm k) k) ` set (keys data)" for c
  proof (cases "data = []")
    case True
    then show ?thesis by (simp add: Job_update_store)
  next
    case False
    have st: "fst (Job_update E db id' data)
        = fst (db_query E db
            (Update ''jobs'' (join '', '' (cols (keys data) ?jm)) ''id''
               (''$'' @ show_nat (length data + 1)))
            (vals data @ [id']))"
      using False by (simp only: Job_update_store if_False)
    show ?thesis
      using update_frame [OF ok plain_j c False, of E db "''jobs''" "''id''"
          "''$'' @ show_nat (length data + 1)" "vals data @ [id']"]
      unfolding st table_rows_jobs .
  qed
  have c_key: "''handle'' \<notin> (\<lambda>k. js_or (get_override ?cm k) k) ` set (keys data)"
    if "\<forall>k \<in> set (keys data). js_or (get_override ?cm k) k \<in> set ?ca"
    using that by auto
  have j_key: "''id'' \<notin> (\<lambda>k. js_or (get_override ?jm k) k) ` set (keys data)"
    if "\<forall>k \<in> set (keys data). js_or (get_override ?jm k) k \<in> set ?ja"
    using that by auto
  have c_other: "jobs (fst (Company_update E db handle data)) = jobs db"
    by (simp add: Company_update_store db_query_update_other_table)
  have j_other: "companies (fst (Job_update E db id' data)) = companies db"
    by (simp add: Job_update_store db_query_update_other_table)
  have c_part: "(\<forall>k \<in> set (keys data). js_or (get_override ?cm k) k \<in> set ?ca) \<longrightarrow>
      map (\<lambda>r. row_get r ''handle'') (companies (fst (Company_update E db handle data)))
        = map (\<lambda>r. row_get r ''handle'') (companies db)
      \<and> (\<forall>c. c \<notin> (\<lambda>k. js_or (get_override ?cm k) k) ` set (keys data) \<longrightarrow>
            map (\<lambda>r. row_get r c) (companies (fst (Company_update E db handle data)))
              = map (\<lambda>r. row_get r c) (companies db))
      \<and> jobs (fst (Company_update E db handle data)) = jobs db"
    using c_col c_key c_other by blast
  have j_part: "(\<forall>k \<in> set (keys data). js_or (get_override ?jm k) k \<in> set ?ja) \<longrightarrow>
      map (\<lambda>r. row_get r ''id'') (jobs (fst (Job_update E db id' data)))
        = map (\<lambda>r. row_get r ''id'') (jobs db)
      \<and> (\<forall>c. c \<notin> (\<lambda>k. js_or (get_override ?jm k) k) ` set (keys data) \<longrightarrow>
            map (\<lambda>r. row_get r c) (jobs (fst (Job_update E db id' data)))
              = map (\<lambda>r. row_get r c) (jobs db))
      \<and> companies (fst (Job_update E db id' data)) = companies db"
    using j_col j_key j_other by blast
  show ?thesis
    using c_part j_part by simp
qed

theorem update_keeps_key_and_unlisted_columns_witness:
  "map (\<lambda>r. row_get r ''handle'')
      (companies (fst (Company_update sample_engine sample_db (JStr ''c1'')
         [(''name'', JStr ''New''), (''numEmployees'', JNum 7)])))
     = [SqlText ''c1'', SqlText ''c2'']
   \<and> map (\<lambda>r. row_get r ''description'')
      (companies (fst (Company_update sample_engine sample_db (JStr ''c1'')
         [(''name'', JStr ''New''), (''numEmployees'', JNum 7)])))
     = [SqlText ''Desc1'', SqlText ''Desc2'']
   \<and> map (\<lambda>r. row_get r ''name'')
      (companies (fst (Company_update sample_engine sample_db (JStr ''c1'')
         [(''name'', JStr ''New''), (''numEmployees'', JNum 7)])))
     = [SqlText ''New'', SqlText ''C2'']
   \<and> map (\<lambda>r. row_get r ''id'')
      (jobs (fst (Job_update sample_engine sample_db (JNum 1)
         [(''title'', JStr ''New''), (''companyHandle'', JStr ''c2'')])))
     = [SqlNum 1, SqlNum 2, SqlNum 3, SqlNum 4]
   \<and> map (\<lambda>r. row_get r ''title'')
      (jobs (fst (Job_update sample_engine sample_db (JNum 1)
         [(''title'', JStr ''New''), (''companyHandle'', JStr ''c2'')])))
     = [SqlText ''New'', SqlText ''test2'', SqlText ''test3'', SqlText ''test4'']"
proof -
  have c: "map (\<lambda>r. row_get r ''handle'')
        (companies (fst (Company_update sample_engine sample_db (JStr ''c1'')
           [(''name'', JStr ''New''), (''numEmployees'', JNum 7)])))
      = map (\<lambda>r. row_get r ''handle'') (companies sample_db)
    \<and> map (\<lambda>r. row_get r ''description'')
        (companies (fst (Company_update sample_engine sample_db (JStr ''c1'')
           [(''name'', JStr ''New''), (''numEmployees'', JNum 7)])))
      = map (\<lambda>r. row_get r ''description'') (companies sample_db)"
    using update_keeps_key_and_unlisted_columns
      [of "[(''name'', JStr ''New''), (''numEmployees'', JNum 7)]" sample_engine sample_db
          "JStr ''c1''" "JNum 1"]
    by (simp add: keys_plain letter_first_no_index is_digit_def column_of inherited_def
        object_prototype_functions_def)
  have j: "map (\<lambda>r. row_get r ''id'')
        (jobs (fst (Job_update sample_engine sample_db (JNum 1)
           [(''title'', JStr ''New''), (''companyHandle'', JStr ''c2'')])))
      = map (\<lambda>r. row_get r ''id'') (jobs sample_db)"
    using update_keeps_key_and_unlisted_columns
      [of "[(''title'', JStr ''New''), (''companyHandle'', JStr ''c2'')]" sample_engine sample_db
          "JStr ''c1''" "JNum 1"]
    by (simp add: keys_plain letter_first_no_index is_digit_def column_of inherited_def
        object_prototype_functions_def)
  have before: "map (\<lambda>r. row_get r ''handle'') (companies sample_db) = [SqlText ''c1'', SqlText ''c2'']"
    "map (\<lambda>r. row_get r ''description'') (companies sample_db) = [SqlText ''Desc1'', SqlText ''Desc2'']"
    "map (\<lambda>r. row_get r ''id'') (jobs sample_db) = [SqlNum 1, SqlNum 2, SqlNum 3, SqlNum 4]"
    by (simp_all add: sample_db_def row_get_def)
  have changed: "map (\<lambda>r. row_get r ''name'')
        (companies (fst (Company_update sample_engine sample_db (JStr ''c1'')
           [(''name'', JStr ''New''), (''numEmployees'', JNum 7)])))
      = [SqlText ''New'', SqlText ''C2'']"
    "map (\<lambda>r. row_get r ''title'')
      (jobs (fst (Job_update sample_engine sample_db (JNum 1)
         [(''title'', JStr ''New''), (''companyHandle'', JStr ''c2'')])))
     = [SqlText ''New'', SqlText ''test2'', SqlText ''test3'', SqlText ''test4'']"
    by code_simp+
  show ?thesis
    using c j before changed by simp
qed

section \<open>Properties of the models: the equity filter\<close>











section \<open>Further properties of the models\<close>

text \<open>
  The statement of an update: for non-empty data the method sends one UPDATE whose SET
  clause is the text of \<open>sqlForPartialUpdate\<close>, whose key placeholder is the number of values
  plus one, and whose parameters are the values followed by the key.
\<close>

theorem update_statement_sent:
  "(data \<noteq> [] \<longrightarrow>
      queries (fst (Company_update E db handle data))
        = queries db
          @ [(Update ''companies''
                (join '', '' (cols (keys data)
                   [''numEmployees'' \<mapsto> ''num_employees'', ''logoUrl'' \<mapsto> ''logo_url'']))
                ''handle'' (''$'' @ show_nat (length data + 1)),
              vals data @ [handle])])
   \<and> (data \<noteq> [] \<longrightarrow>
      queries (fst (Job_update E db id' data))
        = queries db
          @ [(Update ''jobs''
                (join '', '' (cols (keys data) [''companyHandle'' \<mapsto> ''company_handle'']))
                ''id'' (''$'' @ show_nat (length data + 1)),
              vals data @ [id'])])"
  by (simp add: Company_update_store Job_update_store db_query_log)

theorem update_statement_sent_witness:
  "[(''name'', JStr ''New''), (''numEmployees'', JNum 7)] \<noteq> []
   \<and> queries (fst (Company_update sample_engine sample_db (JStr ''c1'')
        [(''name'', JStr ''New''), (''numEmployees'', JNum 7)]))
      = [(Update ''companies'' ''\"name\"=$1, \"num_employees\"=$2'' ''handle'' ''$3'',
          [JStr ''New'', JNum 7, JStr ''c1''])]"
  using update_statement_sent
    [of "[(''name'', JStr ''New''), (''numEmployees'', JNum 7)]" sample_engine sample_db
        "JStr ''c1''" "JNum 1"]
  by (simp add: keys_plain vals_plain letter_first_no_index is_digit_def cols_def column_of
      inherited_def object_prototype_functions_def show_nat.simps digit_char_def sample_db_def)

text \<open>
  \<open>Company.get\<close>, when the engine accepts its statement: \<open>NotFoundError\<close> naming the handle
  when no stored company has it, and otherwise the rows of the join, one for each job of
  the company, or a single row when it has none.
\<close>

theorem Company_get_result:
  "accepts E SelectCompanyJobs [handle] db \<longrightarrow>
     snd (Company_get E db handle)
       = (if filter (\<lambda>c. key_matches (cast E ''handle'' handle) c ''handle'') (companies db) = []
          then Inl (NotFoundError (''No company: '' @ to_string handle))
          else Inr (concat (map (left_join (jobs db))
                 (filter (\<lambda>c. key_matches (cast E ''handle'' handle) c ''handle'')
                    (companies db)))))"
  using Company_get_not_found [of E handle db] Company_get_rows [of E handle db]
  by simp

theorem Company_get_result_witness:
  "accepts sample_engine SelectCompanyJobs [JStr ''nope''] sample_db
   \<and> snd (Company_get sample_engine sample_db (JStr ''nope''))
      = Inl (NotFoundError ''No company: nope'')"
  using Company_get_result [of sample_engine "JStr ''nope''" sample_db]
  by (simp add: sample_engine_def sample_db_def key_matches_def row_get_def)

text \<open>
  Without filters, \<open>findAll\<close> sends the statement with no WHERE clause and no parameter.
\<close>

theorem findAll_without_filters:
  "Company_findAll E db [] = db_query E db (Select ''companies'' '' ORDER BY name'') []
   \<and> Job_findAll E db [] = db_query E db (Select ''jobs'' '' ORDER BY id'') []"
  by (simp add: Company_findAll_def Job_findAll_def keys_Nil get_prop_def where_clause_def)


lemma js_gt_numbers: "js_gt (JNum a) (JNum b) = (b < a)"
  by simp

text \<open>
  X4. When both bounds are numbers and \<open>minEmployees\<close> is the greater, \<open>Company.findAll\<close>
  fails with a \<open>BadRequestError\<close> and the store is returned as it was, no statement
  recorded; the message is the one of the bounds check unless a key outside the allow-list
  was rejected first. So it is for \<open>{minEmployees: 10, maxEmployees: 5}\<close>.
\<close>

theorem Company_findAll_numeric_bounds:
  "\<forall>a b. get_prop searchFilters ''minEmployees'' = JNum a
          \<and> get_prop searchFilters ''maxEmployees'' = JNum b \<and> b < a \<longrightarrow>
      (\<exists>m. Company_findAll E db searchFilters = (db, Inl (BadRequestError m)))
      \<and> ((\<forall>k \<in> set (keys searchFilters). k \<in> {''name'', ''minEmployees'', ''maxEmployees''}) \<longrightarrow>
            Company_findAll E db searchFilters
              = (db, Inl (BadRequestError ''minEmployees cannot be greater than maxEmployees'')))"
proof -
  have all: "(\<forall>k \<in> set (keys searchFilters). k \<in> {''name'', ''minEmployees'', ''maxEmployees''})
      = ([k \<leftarrow> keys searchFilters. k \<notin> {''name'', ''minEmployees'', ''maxEmployees''}] = [])"
    by (auto simp: filter_empty_conv)
  have general: "(\<exists>m. Company_findAll E db searchFilters = (db, Inl (BadRequestError m)))
      \<and> ((\<forall>k \<in> set (keys searchFilters). k \<in> {''name'', ''minEmployees'', ''maxEmployees''}) \<longrightarrow>
            Company_findAll E db searchFilters
              = (db, Inl (BadRequestError ''minEmployees cannot be greater than maxEmployees'')))"
    if gt: "js_gt (get_prop searchFilters ''minEmployees'') (get_prop searchFilters ''maxEmployees'')"
    using Company_findAll_js_gt [OF gt, of E db] unfolding all by simp
  have numbers: "js_gt (get_prop searchFilters ''minEmployees'') (get_prop searchFilters ''maxEmployees'')"
    if "get_prop searchFilters ''minEmployees'' = JNum a"
      and "get_prop searchFilters ''maxEmployees'' = JNum b" and "b < a" for a b
    using that by (simp add: js_gt_numbers)
  show ?thesis
    using general numbers by blast
qed

theorem Company_findAll_numeric_bounds_witness:
  "get_prop [(''minEmployees'', JNum 10), (''maxEmployees'', JNum 5)] ''minEmployees'' = JNum 10
   \<and> get_prop [(''minEmployees'', JNum 10), (''maxEmployees'', JNum 5)] ''maxEmployees'' = JNum 5
   \<and> (5 :: int) < 10
   \<and> Company_findAll sample_engine sample_db [(''minEmployees'', JNum 10), (''maxEmployees'', JNum 5)]
      = (sample_db, Inl (BadRequestError ''minEmployees cannot be greater than maxEmployees''))"
proof -
  have g: "get_prop [(''minEmployees'', JNum 10), (''maxEmployees'', JNum 5)] ''minEmployees'' = JNum 10"
    "get_prop [(''minEmployees'', JNum 10), (''maxEmployees'', JNum 5)] ''maxEmployees'' = JNum 5"
    by (simp_all add: bounds_props)
  have k: "\<forall>k \<in> set (keys [(''minEmployees'', JNum 10), (''maxEmployees'', JNum 5)]).
      k \<in> {''name'', ''minEmployees'', ''maxEmployees''}"
    by (simp add: bounds_keys)
  have "Company_findAll sample_engine sample_db [(''minEmployees'', JNum 10), (''maxEmployees'', JNum 5)]
      = (sample_db, Inl (BadRequestError ''minEmployees cannot be greater than maxEmployees''))"
    using Company_findAll_numeric_bounds
      [of "[(''minEmployees'', JNum 10), (''maxEmployees'', JNum 5)]" sample_engine sample_db,
       rule_format, of 10 5] g k
    by simp
  then show ?thesis
    using g by simp
qed

end
